theory Spec2Isabelle
  imports Main
begin

section \<open>Text, character classes and substring tests\<close>

text \<open>
  A text is a list of characters whose code points lie below 256.  On this range the
  lowering of a text (the method lower of the source language) sends A-Z and the
  accented capitals (code points 192-222 except 215) to the letter 32 places higher and
  leaves every other character alone, so the lowered text has the length of the original.
\<close>

definition code_point :: "char \<Rightarrow> nat" where
  "code_point c = of_char c"

definition lower_char :: "char \<Rightarrow> char" where
  "lower_char c = (let n = code_point c in
     if (65 \<le> n \<and> n \<le> 90) \<or> (192 \<le> n \<and> n \<le> 222 \<and> n \<noteq> 215)
     then char_of (n + 32) else c)"

definition py_lower :: "string \<Rightarrow> string" where
  "py_lower s = map lower_char s"

text \<open>The classes of the patterns: white space, decimal digits, the hexadecimal
  digits of either case, and the word characters that decide a word boundary.\<close>

definition is_space :: "char \<Rightarrow> bool" where
  "is_space c = (c \<in> set [CHR 0x09, CHR 0x0A, CHR 0x0B, CHR 0x0C, CHR 0x0D,
                              CHR 0x1C, CHR 0x1D, CHR 0x1E, CHR 0x1F, CHR 0x20,
                              CHR 0x85, CHR 0xA0])"

definition is_digit :: "char \<Rightarrow> bool" where
  "is_digit c = (c \<in> set ''0123456789'')"

definition is_hex :: "char \<Rightarrow> bool" where
  "is_hex c = (c \<in> set ''abcdefABCDEF0123456789'')"

definition is_word :: "char \<Rightarrow> bool" where
  "is_word c = (let n = code_point c in
     (48 \<le> n \<and> n \<le> 57) \<or> (65 \<le> n \<and> n \<le> 90) \<or> n = 95 \<or> (97 \<le> n \<and> n \<le> 122)
     \<or> n = 170 \<or> n = 178 \<or> n = 179 \<or> n = 181 \<or> n = 185 \<or> n = 186
     \<or> (188 \<le> n \<and> n \<le> 190) \<or> (192 \<le> n \<and> n \<le> 214)
     \<or> (216 \<le> n \<and> n \<le> 246) \<or> (248 \<le> n \<and> n \<le> 255))"

definition not_newline :: "char \<Rightarrow> bool" where
  "not_newline c = (c \<noteq> CHR 0x0A)"

fun starts_with :: "string \<Rightarrow> string \<Rightarrow> bool" where
  "starts_with [] ys = True"
| "starts_with (x # xs) [] = False"
| "starts_with (x # xs) (y # ys) = (x = y \<and> starts_with xs ys)"

fun contains :: "string \<Rightarrow> string \<Rightarrow> bool" where
  "contains needle [] = (needle = [])"
| "contains needle (c # cs) = (starts_with needle (c # cs) \<or> contains needle cs)"

section \<open>Regular expressions with the backtracking search of the regex library\<close>

text \<open>
  The patterns of the detectors use literals, classes of characters, sequence,
  alternation, the optional item, the greedy star and the repetition of a class, the
  word boundary and one capture group.  A pattern is matched at a position by
  backtracking: an alternation tries its branches from the left, an optional item and a
  star take as much as they can first and give back on failure.  The matcher is written
  with a continuation for the rest of the pattern; its state is the character before the
  position (for the word boundary), the rest of the text, and the text captured so far.
\<close>

datatype rx =
    Eps
  | Cls "char \<Rightarrow> bool"
  | Seq rx rx
  | Alt rx rx
  | Opt rx
  | Star "char \<Rightarrow> bool"
  | WordB
  | Grp rx

type_synonym mstate = "char option \<times> string \<times> string option"

fun star_greedy :: "(char \<Rightarrow> bool) \<Rightarrow> (mstate \<Rightarrow> mstate option) \<Rightarrow> mstate \<Rightarrow> mstate option" where
  "star_greedy p k (pc, [], g) = k (pc, [], g)"
| "star_greedy p k (pc, c # cs, g) =
     (if p c then (case star_greedy p k (Some c, cs, g) of
                     Some r \<Rightarrow> Some r
                   | None \<Rightarrow> k (pc, c # cs, g))
      else k (pc, c # cs, g))"

definition at_boundary :: "char option \<Rightarrow> string \<Rightarrow> bool" where
  "at_boundary pc cs =
     ((case pc of None \<Rightarrow> False | Some c \<Rightarrow> is_word c)
      \<noteq> (case cs of [] \<Rightarrow> False | c # _ \<Rightarrow> is_word c))"

primrec rmatch :: "rx \<Rightarrow> (mstate \<Rightarrow> mstate option) \<Rightarrow> mstate \<Rightarrow> mstate option" where
  "rmatch Eps = (\<lambda>k s. k s)"
| "rmatch (Cls p) = (\<lambda>k s. case s of (pc, cs, g) \<Rightarrow>
     (case cs of [] \<Rightarrow> None | c # cs' \<Rightarrow> if p c then k (Some c, cs', g) else None))"
| "rmatch (Seq a b) = (\<lambda>k s. rmatch a (rmatch b k) s)"
| "rmatch (Alt a b) = (\<lambda>k s. case rmatch a k s of Some r \<Rightarrow> Some r | None \<Rightarrow> rmatch b k s)"
| "rmatch (Opt a) = (\<lambda>k s. case rmatch a k s of Some r \<Rightarrow> Some r | None \<Rightarrow> k s)"
| "rmatch (Star p) = (\<lambda>k s. star_greedy p k s)"
| "rmatch WordB = (\<lambda>k s. case s of (pc, cs, g) \<Rightarrow> if at_boundary pc cs then k s else None)"
| "rmatch (Grp a) = (\<lambda>k s. case s of (pc, cs, g) \<Rightarrow>
     rmatch a (\<lambda>s'. case s' of (pc', cs', g') \<Rightarrow>
        k (pc', cs', Some (take (length cs - length cs') cs))) s)"

fun ngroups :: "rx \<Rightarrow> nat" where
  "ngroups (Seq a b) = ngroups a + ngroups b"
| "ngroups (Alt a b) = ngroups a + ngroups b"
| "ngroups (Opt a) = ngroups a"
| "ngroups (Grp a) = Suc (ngroups a)"
| "ngroups r = 0"

record match =
  group0 :: string
  group1 :: "string option"
  groups :: nat

text \<open>
  The search tries the pattern at every position from the left, the end of the text
  included, and stops at the first position where it matches; m is the pattern as a
  matcher and n its number of capture groups.
\<close>

fun search_from ::
  "(mstate \<Rightarrow> mstate option) \<Rightarrow> nat \<Rightarrow> char option \<Rightarrow> string \<Rightarrow> match option" where
  "search_from m n pc [] =
     (case m (pc, [], None) of
        Some (pc', cs', g) \<Rightarrow> Some \<lparr>group0 = [], group1 = g, groups = n\<rparr>
      | None \<Rightarrow> None)"
| "search_from m n pc (c # cs) =
     (case m (pc, c # cs, None) of
        Some (pc', cs', g) \<Rightarrow>
          Some \<lparr>group0 = take (length (c # cs) - length cs') (c # cs), group1 = g,
                groups = n\<rparr>
      | None \<Rightarrow> search_from m n (Some c) cs)"

definition re_search :: "rx \<Rightarrow> string \<Rightarrow> match option" where
  "re_search r s = search_from (rmatch r Some) (ngroups r) None s"

text \<open>Shorthands for writing patterns: a literal word, an alternation and a sequence of
  several patterns, and n copies of a pattern.\<close>

definition lit :: "string \<Rightarrow> rx" where
  "lit s = foldr (\<lambda>c r. Seq (Cls (\<lambda>d. d = c)) r) s Eps"

fun alts :: "rx list \<Rightarrow> rx" where
  "alts [] = Cls (\<lambda>c. False)"
| "alts [r] = r"
| "alts (r # rs) = Alt r (alts rs)"

definition cat :: "rx list \<Rightarrow> rx" where
  "cat rs = foldr Seq rs Eps"

definition rep :: "nat \<Rightarrow> rx \<Rightarrow> rx" where
  "rep n r = cat (replicate n r)"

text \<open>
  Reading a group of a match object: group 0 is the whole match, group 1 the text of
  the capture (absent when the capture took no part); a group number the pattern
  does not have raises IndexError.
\<close>

datatype py_error = IndexError

definition group :: "match \<Rightarrow> nat \<Rightarrow> py_error + string option" where
  "group m i = (if i = 0 then Inr (Some (group0 m))
                else if i = 1 \<and> i \<le> groups m then Inr (group1 m)
                else Inl IndexError)"

text \<open>The truth value of an optional string in a condition: None and the empty string
  are false.\<close>

definition truthy :: "string option \<Rightarrow> bool" where
  "truthy v = (case v of None \<Rightarrow> False | Some s \<Rightarrow> s \<noteq> [])"

text \<open>Whether any pattern of a list is found in a text, and whether any keyword of a
  list occurs in it.\<close>

definition any_match :: "rx list \<Rightarrow> string \<Rightarrow> bool" where
  "any_match patterns s = list_ex (\<lambda>pattern. re_search pattern s \<noteq> None) patterns"

definition any_keyword :: "string list \<Rightarrow> string \<Rightarrow> bool" where
  "any_keyword keywords s = list_ex (\<lambda>keyword. contains keyword s) keywords"

text \<open>An alternation of words, and the group 0 of a match object that may be None.\<close>

definition one_of :: "string list \<Rightarrow> rx" where
  "one_of ws = alts (map lit ws)"

definition group0_or_none :: "match option \<Rightarrow> py_error + string option" where
  "group0_or_none m = (case m of Some x \<Rightarrow> group x 0 | None \<Rightarrow> Inr None)"

section \<open>The network table\<close>

definition NETWORK_TO_CHAIN_ID :: "(string \<times> string) list" where
  "NETWORK_TO_CHAIN_ID =
    [(''ethereum'', ''1''),
     (''eth'', ''1''),
     (''mainnet'', ''1''),
     (''binance'', ''56''),
     (''bsc'', ''56''),
     (''polygon'', ''137''),
     (''matic'', ''137''),
     (''avalanche'', ''43114''),
     (''avax'', ''43114''),
     (''arbitrum'', ''42161''),
     (''optimism'', ''10''),
     (''base'', ''8453''),
     (''fantom'', ''250''),
     (''ftm'', ''250''),
     (''aurora'', ''1313161554'')]"

definition network_keys :: "string list" where
  "network_keys = map fst NETWORK_TO_CHAIN_ID"

text \<open>The lookup of the action get-gas-price: the lowered name, absent when unknown.\<close>

definition get_chain_id :: "string \<Rightarrow> string option" where
  "get_chain_id network = map_of NETWORK_TO_CHAIN_ID (py_lower network)"

text \<open>The lookup of the callers: the lowered name, chain 1 when unknown.\<close>

definition chain_id_or_default :: "string \<Rightarrow> string" where
  "chain_id_or_default network =
     (case map_of NETWORK_TO_CHAIN_ID (py_lower network) of Some cid \<Rightarrow> cid | None \<Rightarrow> ''1'')"

text \<open>The scan for a network alias: the first key, in table order, whose lowered
  form occurs in the lowered text.\<close>

definition scan_network :: "string \<Rightarrow> string option" where
  "scan_network text =
     find (\<lambda>net. contains (py_lower net) (py_lower text)) network_keys"

definition extract_network :: "string \<Rightarrow> string" where
  "extract_network text =
     (let network = scan_network text in
      if \<not> truthy network then ''ethereum''
      else (case network of Some net \<Rightarrow> net | None \<Rightarrow> ''ethereum''))"

section \<open>Gas price\<close>

definition gas_patterns :: "rx list" where
  "gas_patterns =
    [cat [alts [cat [lit ''what'', one_of ['''s'', '' is''], lit '' the''],
                lit ''current'', lit ''check'', lit ''get'', lit ''show''],
          lit '' '', one_of [''gas'', ''gas price'', ''gas fee'']],
     cat [lit ''gas '', one_of [''price'', ''fee'', ''cost'']],
     cat [lit ''how much '', one_of [''gas'', ''fee'']],
     lit ''transaction fee'',
     lit ''network fee'']"

definition detect_gas_price_query :: "string \<Rightarrow> py_error + string option" where
  "detect_gas_price_query text =
     (let is_gas_query = any_match gas_patterns (py_lower text) in
      if \<not> is_gas_query then Inr None
      else (case scan_network text of
              Some network \<Rightarrow> Inr (Some network)
            | None \<Rightarrow> Inr (Some ''ethereum'')))"

section \<open>NFT holdings\<close>

definition nft_patterns :: "rx list" where
  "nft_patterns =
    [cat [one_of [''what'', ''which'', ''show'', ''get'', ''fetch'', ''check''], lit '' '',
          alts [cat [lit ''nft'', Opt (lit ''s'')],
                cat [lit ''non-fungible token'', Opt (lit ''s'')]]],
     cat [lit ''nft'', Opt (lit ''s''), lit '' '',
          alts [cat [lit ''holding'', Opt (lit ''s'')], lit ''owned'', lit ''collection'']],
     cat [one_of [''owned'', ''holding''], lit '' nft'', Opt (lit ''s'')],
     cat [lit ''nft '', one_of [''collection'', ''portfolio'', ''gallery'']],
     cat [lit ''what nft'', Opt (lit ''s''), lit '' '', one_of [''does'', ''do''], lit '' '',
          Star not_newline, lit '' '', one_of [''have'', ''own'', ''hold'']]]"

definition eth_address_pattern :: rx where
  "eth_address_pattern = cat [lit ''0x'', rep 40 (Cls is_hex)]"

definition detect_nft_holdings_query ::
  "string \<Rightarrow> py_error + (string option \<times> string option)" where
  "detect_nft_holdings_query text =
     (let is_nft_query = any_match nft_patterns (py_lower text) in
      if \<not> is_nft_query then Inr (None, None)
      else (let wallet_match = re_search eth_address_pattern text in
            case group0_or_none wallet_match of
              Inl e \<Rightarrow> Inl e
            | Inr wallet_address \<Rightarrow> Inr (wallet_address, Some (extract_network text))))"

section \<open>Spot price\<close>

definition price_patterns :: "rx list" where
  "price_patterns =
    [cat [alts [cat [lit ''what'', one_of ['''s'', '' is''], lit '' the''],
                lit ''current'', lit ''check'', lit ''get'', lit ''show''],
          lit '' '', one_of [''spot price'', ''token price'', ''price'']],
     cat [lit ''price '', one_of [''of'', ''for''], lit '' '',
          alts [cat [lit ''token'', Opt (lit ''s'')],
                cat [lit ''whitelisted token'', Opt (lit ''s'')]]],
     cat [lit ''token '', one_of [''price'', ''value'']],
     cat [lit ''spot '', one_of [''price'', ''value'']]]"

definition currencies :: "string list" where
  "currencies = [''USD'', ''INR'', ''EUR'', ''GBP'', ''JPY'', ''CNY'']"

definition detect_spot_price_query ::
  "string \<Rightarrow> py_error + (string option \<times> string option)" where
  "detect_spot_price_query text =
     (let is_price_query = any_match price_patterns (py_lower text) in
      if \<not> is_price_query then Inr (None, None)
      else (let currency =
                  (case find (\<lambda>cur. contains (py_lower cur) (py_lower text)) currencies of
                     Some cur \<Rightarrow> cur
                   | None \<Rightarrow> ''USD'')
            in Inr (Some currency, Some (extract_network text))))"

section \<open>Token value\<close>

text \<open>The three token-details phrases that the token-value detector checks first.\<close>

definition value_token_details_patterns :: "rx list" where
  "value_token_details_patterns =
    [lit ''token details'',
     lit ''get token details'',
     cat [one_of [''token'', ''erc20''], lit '' '',
          one_of [''details'', ''info'', ''information'']]]"

definition token_value_patterns :: "rx list" where
  "token_value_patterns =
    [cat [alts [cat [lit ''what'', one_of ['''s'', '' is''], lit '' the''],
                lit ''current'', lit ''check'', lit ''get'', lit ''show''],
          lit '' '', one_of [''value'', ''price'', ''worth''], lit '' of '',
          one_of [''token'', ''erc20'']],
     cat [one_of [''token'', ''erc20''], lit '' '', one_of [''value'', ''price'', ''worth'']],
     cat [lit ''how much is '', one_of [''token'', ''erc20''], lit '' worth''],
     cat [lit ''value of '', one_of [''token'', ''erc20'']],
     lit ''current value'',
     lit ''token value'',
     lit ''token worth'']"

definition value_keywords :: "string list" where
  "value_keywords = [''value'', ''worth'', ''price'', ''cost'', ''how much'']"

definition detect_token_value_query ::
  "string \<Rightarrow> py_error + (string option \<times> string option)" where
  "detect_token_value_query text =
     (if any_match value_token_details_patterns (py_lower text) then Inr (None, None)
      else
        (let is_token_value_query = any_match token_value_patterns (py_lower text);
             address_match = re_search eth_address_pattern text
         in if \<not> (is_token_value_query \<or> address_match \<noteq> None) then Inr (None, None)
            else if \<not> is_token_value_query \<and> address_match \<noteq> None
                    \<and> \<not> any_keyword value_keywords (py_lower text)
            then Inr (None, None)
            else (case group0_or_none address_match of
                    Inl e \<Rightarrow> Inl e
                  | Inr token_address \<Rightarrow> Inr (token_address, Some (extract_network text)))))"

section \<open>Token details\<close>

definition token_details_patterns :: "rx list" where
  "token_details_patterns =
    [cat [alts [cat [lit ''what'', one_of ['''s'', '' is'', '' are'']],
                lit ''tell me about'', lit ''show'', lit ''get'', lit ''fetch'', lit ''check''],
          lit '' '', Opt (lit ''the ''), one_of [''token'', ''erc20''], lit '' '',
          one_of [''details'', ''info'', ''information'']],
     cat [one_of [''token'', ''erc20''], lit '' '',
          one_of [''details'', ''info'', ''information'']],
     cat [lit ''details '', one_of [''of'', ''about'', ''for''], lit '' '',
          one_of [''token'', ''erc20'']],
     cat [lit ''information '', one_of [''on'', ''about''], lit '' '',
          one_of [''token'', ''erc20'']],
     lit ''token details'',
     lit ''get token details'',
     lit ''detailed information'']"

definition details_keywords :: "string list" where
  "details_keywords =
     [''details'', ''info'', ''information'', ''stats'', ''statistics'', ''data'']"

definition detect_token_details_query ::
  "string \<Rightarrow> py_error + (string option \<times> string option)" where
  "detect_token_details_query text =
     (let is_token_details_query = any_match token_details_patterns (py_lower text);
          address_match = re_search eth_address_pattern text
      in if \<not> (is_token_details_query \<or> address_match \<noteq> None) then Inr (None, None)
         else if \<not> is_token_details_query \<and> address_match \<noteq> None
                 \<and> \<not> any_keyword details_keywords (py_lower text)
         then Inr (None, None)
         else (case group0_or_none address_match of
                 Inl e \<Rightarrow> Inl e
               | Inr token_address \<Rightarrow> Inr (token_address, Some (extract_network text))))"

section \<open>Token profit and loss\<close>

text \<open>The alternation of profit-and-loss words that the five templates share.\<close>

definition profitloss_words :: rx where
  "profitloss_words =
     one_of [''profit'', ''loss'', ''profitloss'', ''profit and loss'', ''profit/loss'',
             ''p&l'', ''roi'', ''return'']"

definition profitloss_patterns :: "rx list" where
  "profitloss_patterns =
    [cat [alts [cat [lit ''what'', one_of ['''s'', '' is''], lit '' the''],
                lit ''current'', lit ''check'', lit ''get'', lit ''show''],
          lit '' '', profitloss_words],
     cat [one_of [''token'', ''erc20''], lit '' '', profitloss_words],
     cat [lit ''how much '', one_of [''profit'', ''loss'', ''return''], lit '' '',
          one_of [''for'', ''from''], lit '' '', one_of [''token'', ''erc20'']],
     cat [profitloss_words, lit '' '', one_of [''of'', ''for'', ''from''], lit '' '',
          one_of [''token'', ''erc20'']],
     cat [profitloss_words, lit '' '',
          one_of [''information'', ''data'', ''stats'', ''statistics'']]]"

definition profitloss_keywords :: "string list" where
  "profitloss_keywords =
     [''profit'', ''loss'', ''profitloss'', ''roi'', ''return'', ''p&l'', ''gain'']"

definition sep_day :: rx where
  "sep_day = cat [Opt (Cls (\<lambda>c. c = CHR '' '' \<or> c = CHR ''-'')), lit ''day'']"

definition timerange_patterns :: "(rx \<times> string) list" where
  "timerange_patterns =
    [(cat [one_of [''1'', ''one''], sep_day], ''1day''),
     (cat [one_of [''7'', ''seven''], sep_day], ''7day''),
     (cat [one_of [''30'', ''thirty''], sep_day], ''30day''),
     (cat [one_of [''90'', ''ninety''], sep_day], ''90day''),
     (cat [one_of [''180'', ''one hundred eighty''], sep_day], ''180day''),
     (cat [one_of [''365'', ''one year''], sep_day], ''365day''),
     (cat [lit ''all'', Opt (Cls (\<lambda>c. c = CHR '' '' \<or> c = CHR ''-'')), lit ''time''],
      ''all'')]"

definition extract_timerange :: "string \<Rightarrow> string" where
  "extract_timerange text =
     (case find (\<lambda>(pattern, v). re_search pattern (py_lower text) \<noteq> None)
             timerange_patterns of
        Some (pattern, v) \<Rightarrow> v
      | None \<Rightarrow> ''1day'')"

definition detect_token_profitloss_query ::
  "string \<Rightarrow> py_error + (string option \<times> string option \<times> string option)" where
  "detect_token_profitloss_query text =
     (let is_profitloss_query = any_match profitloss_patterns (py_lower text);
          address_match = re_search eth_address_pattern text
      in if \<not> (is_profitloss_query \<or> address_match \<noteq> None) then Inr (None, None, None)
         else if \<not> is_profitloss_query \<and> address_match \<noteq> None
                 \<and> \<not> any_keyword profitloss_keywords (py_lower text)
         then Inr (None, None, None)
         else (case group0_or_none address_match of
                 Inl e \<Rightarrow> Inl e
               | Inr token_address \<Rightarrow>
                   Inr (token_address, Some (extract_network text),
                        Some (extract_timerange text))))"

section \<open>Transaction trace\<close>

definition trace_patterns :: "rx list" where
  "trace_patterns =
    [cat [alts [cat [lit ''what'', one_of ['''s'', '' is''], lit '' the''],
                lit ''get'', lit ''fetch'', lit ''show'', lit ''find''],
          lit '' '', one_of [''transaction trace'', ''tx trace'', ''trace'']],
     cat [one_of [''transaction'', ''tx''], lit '' '',
          one_of [''trace'', ''details'', ''information'']],
     cat [lit ''trace '', one_of [''of'', ''for''], lit '' '', one_of [''transaction'', ''tx'']],
     cat [one_of [''trace'', ''details''], lit '' '', one_of [''of'', ''for'', ''about''],
          lit '' '', one_of [''transaction'', ''tx'']],
     cat [lit ''transaction '', one_of [''execution'', ''call''], lit '' '',
          one_of [''trace'', ''details'']]]"

definition tx_hash_pattern :: rx where
  "tx_hash_pattern = cat [lit ''0x'', rep 64 (Cls is_hex)]"

definition block_number_pattern :: rx where
  "block_number_pattern =
     cat [one_of [''block'', ''blk''],
          Opt (cat [Cls is_space, Star is_space, one_of [''number'', ''#'', ''num'', ''no'']]),
          alts [cat [Star is_space, Cls (\<lambda>c. c = CHR '':'' \<or> c = CHR ''=''), Star is_space],
                cat [Cls is_space, Star is_space]],
          Grp (cat [Cls is_digit, Star is_digit])]"

definition block_number_simple_pattern :: rx where
  "block_number_simple_pattern = cat [WordB, rep 7 (Cls is_digit), Star is_digit, WordB]"

definition extract_block_number :: "string \<Rightarrow> py_error + string option" where
  "extract_block_number text =
     (case re_search block_number_pattern text of
        Some block_match \<Rightarrow> group block_match 1
      | None \<Rightarrow> group0_or_none (re_search block_number_simple_pattern text))"

definition detect_transaction_trace_query ::
  "string \<Rightarrow> py_error + (string option \<times> string option \<times> string option)" where
  "detect_transaction_trace_query text =
     (let is_trace_query = any_match trace_patterns (py_lower text);
          tx_hash_match = re_search tx_hash_pattern text
      in if \<not> (is_trace_query \<or> tx_hash_match \<noteq> None) then Inr (None, None, None)
         else (case group0_or_none tx_hash_match of
                 Inl e \<Rightarrow> Inl e
               | Inr tx_hash \<Rightarrow>
                  (case extract_block_number text of
                     Inl e \<Rightarrow> Inl e
                   | Inr block_number \<Rightarrow>
                       Inr (tx_hash, block_number, Some (extract_network text)))))"

section \<open>Transaction history\<close>

definition history_patterns :: "rx list" where
  "history_patterns =
    [cat [alts [cat [lit ''what'', one_of ['''s'', '' is'', '' are'']],
                lit ''show'', lit ''get'', lit ''fetch'', lit ''check''],
          lit '' '', Opt (lit ''the ''), one_of [''transaction'', ''tx''], lit '' '',
          one_of [''history'', ''record'', ''log'']],
     cat [one_of [''transaction'', ''tx''], lit '' '', one_of [''history'', ''record'', ''log'']],
     cat [one_of [''history'', ''record'', ''log''], lit '' '', one_of [''of'', ''for''], lit '' '',
          one_of [''transaction'', ''tx'', ''wallet'', ''address'']],
     cat [one_of [''past'', ''recent'', ''previous''], lit '' '', one_of [''transaction'', ''tx'']],
     cat [lit ''what '', one_of [''transaction'', ''tx''], lit '' '', one_of [''has'', ''have''],
          lit '' '', one_of [''wallet'', ''address'']],
     cat [one_of [''list'', ''show''], lit '' '', one_of [''all'', ''recent''], lit '' '',
          one_of [''transaction'', ''tx'']]]"

definition history_keywords :: "string list" where
  "history_keywords = [''history'', ''transactions'', ''tx'', ''record'', ''log'', ''activity'']"

definition detect_transaction_history_query ::
  "string \<Rightarrow> py_error + (string option \<times> string option)" where
  "detect_transaction_history_query text =
     (let is_history_query = any_match history_patterns (py_lower text);
          address_match = re_search eth_address_pattern text
      in if \<not> (is_history_query \<or> address_match \<noteq> None) then Inr (None, None)
         else if \<not> is_history_query \<and> address_match \<noteq> None
                 \<and> \<not> any_keyword history_keywords (py_lower text)
         then Inr (None, None)
         else (case group0_or_none address_match of
                 Inl e \<Rightarrow> Inl e
               | Inr wallet_address \<Rightarrow> Inr (wallet_address, Some (extract_network text))))"

section \<open>The chat loop: detection, conflict resolution and the selection ladder\<close>

record detection =
  network :: "string option"
  nft_wallet_address :: "string option"
  nft_network :: "string option"
  currency :: "string option"
  spot_network :: "string option"
  token_address :: "string option"
  token_network :: "string option"
  details_token_address :: "string option"
  details_token_network :: "string option"
  profitloss_token_address :: "string option"
  profitloss_token_network :: "string option"
  profitloss_timerange :: "string option"
  tx_hash :: "string option"
  block_number :: "string option"
  tx_network :: "string option"
  wallet_address :: "string option"
  history_network :: "string option"

definition bind_result :: "'e + 'a \<Rightarrow> ('a \<Rightarrow> 'e + 'b) \<Rightarrow> 'e + 'b" where
  "bind_result r f = (case r of Inl e \<Rightarrow> Inl e | Inr v \<Rightarrow> f v)"

definition run_detectors :: "string \<Rightarrow> py_error + detection" where
  "run_detectors user_input =
     bind_result (detect_gas_price_query user_input) (\<lambda>net.
     bind_result (detect_nft_holdings_query user_input) (\<lambda>(nft_a, nft_n).
     bind_result (detect_spot_price_query user_input) (\<lambda>(cur, spot_n).
     bind_result (detect_token_value_query user_input) (\<lambda>(tok_a, tok_n).
     bind_result (detect_token_details_query user_input) (\<lambda>(det_a, det_n).
     bind_result (detect_token_profitloss_query user_input) (\<lambda>(pl_a, pl_n, pl_t).
     bind_result (detect_transaction_trace_query user_input) (\<lambda>(h, b, tx_n).
     bind_result (detect_transaction_history_query user_input) (\<lambda>(w, hist_n).
       Inr \<lparr>network = net,
            nft_wallet_address = nft_a, nft_network = nft_n,
            currency = cur, spot_network = spot_n,
            token_address = tok_a, token_network = tok_n,
            details_token_address = det_a, details_token_network = det_n,
            profitloss_token_address = pl_a, profitloss_token_network = pl_n,
            profitloss_timerange = pl_t,
            tx_hash = h, block_number = b, tx_network = tx_n,
            wallet_address = w, history_network = hist_n\<rparr>))))))))"

definition keyword_score :: "string list \<Rightarrow> string \<Rightarrow> nat" where
  "keyword_score keywords user_input =
     length (filter (\<lambda>keyword. contains keyword (py_lower user_input)) keywords)"

definition resolve_value_details :: "string \<Rightarrow> detection \<Rightarrow> detection" where
  "resolve_value_details user_input d =
     (if truthy (token_address d) \<and> truthy (details_token_address d)
         \<and> token_address d = details_token_address d
      then (let value_score = keyword_score value_keywords user_input;
                details_score = keyword_score details_keywords user_input
            in if details_score > value_score
               then d\<lparr>token_address := None, token_network := None\<rparr>
               else if value_score > details_score
               then d\<lparr>details_token_address := None, details_token_network := None\<rparr>
               else d\<lparr>details_token_address := None, details_token_network := None\<rparr>)
      else d)"

definition resolve_profitloss_value :: "string \<Rightarrow> nat \<Rightarrow> detection \<Rightarrow> detection" where
  "resolve_profitloss_value user_input profitloss_score d =
     (if truthy (token_address d) \<and> token_address d = profitloss_token_address d
      then (let value_score = keyword_score value_keywords user_input
            in if profitloss_score > value_score
               then d\<lparr>token_address := None, token_network := None\<rparr>
               else d\<lparr>profitloss_token_address := None, profitloss_token_network := None,
                      profitloss_timerange := None\<rparr>)
      else d)"

definition resolve_profitloss_details :: "string \<Rightarrow> nat \<Rightarrow> detection \<Rightarrow> detection" where
  "resolve_profitloss_details user_input profitloss_score d =
     (if truthy (details_token_address d)
         \<and> details_token_address d = profitloss_token_address d
      then (let details_score = keyword_score details_keywords user_input
            in if profitloss_score > details_score
               then d\<lparr>details_token_address := None, details_token_network := None\<rparr>
               else d\<lparr>profitloss_token_address := None, profitloss_token_network := None,
                      profitloss_timerange := None\<rparr>)
      else d)"

definition resolve_profitloss :: "string \<Rightarrow> detection \<Rightarrow> detection" where
  "resolve_profitloss user_input d =
     (if truthy (profitloss_token_address d)
      then (let profitloss_score = keyword_score profitloss_keywords user_input
            in resolve_profitloss_details user_input profitloss_score
                 (resolve_profitloss_value user_input profitloss_score d))
      else d)"

definition disambiguate :: "string \<Rightarrow> detection \<Rightarrow> detection" where
  "disambiguate user_input d = resolve_profitloss user_input (resolve_value_details user_input d)"

text \<open>What the chat loop hands to the data fetch: the first branch of its ladder
  whose test holds, with the arguments of that branch.\<close>

datatype intent =
    GasPrice "string option"
  | NftHoldings "string option" "string option"
  | SpotPrice "string option" "string option"
  | TokenValue "string option" "string option"
  | TokenDetails "string option" "string option"
  | TokenProfitLoss "string option" "string option" "string option"
  | TransactionTrace "string option" "string option" "string option"
  | TransactionHistory "string option" "string option"
  | NoIntent

definition chat_select :: "bool \<Rightarrow> detection \<Rightarrow> intent" where
  "chat_select api_tools d =
     (if truthy (network d) \<and> api_tools then GasPrice (network d)
      else if truthy (nft_wallet_address d) \<and> api_tools
      then NftHoldings (nft_wallet_address d) (nft_network d)
      else if truthy (currency d) \<and> api_tools
      then SpotPrice (currency d) (map_option chain_id_or_default (spot_network d))
      else if truthy (token_address d) \<and> api_tools
      then TokenValue (token_address d) (map_option chain_id_or_default (token_network d))
      else if truthy (details_token_address d) \<and> api_tools
      then TokenDetails (details_token_address d)
             (map_option chain_id_or_default (details_token_network d))
      else if truthy (profitloss_token_address d) \<and> api_tools
      then TokenProfitLoss (profitloss_token_address d)
             (map_option chain_id_or_default (profitloss_token_network d))
             (profitloss_timerange d)
      else if truthy (tx_hash d) \<and> truthy (block_number d) \<and> api_tools
      then TransactionTrace (tx_hash d) (block_number d)
             (map_option chain_id_or_default (tx_network d))
      else if truthy (wallet_address d) \<and> api_tools
      then TransactionHistory (wallet_address d)
             (map_option chain_id_or_default (history_network d))
      else NoIntent)"

definition ollama_chat_intent :: "bool \<Rightarrow> string \<Rightarrow> py_error + intent" where
  "ollama_chat_intent api_tools user_input =
     bind_result (run_detectors user_input)
       (\<lambda>d. Inr (chat_select api_tools (disambiguate user_input d)))"

text \<open>The first step of the server's chat route: a trace is forwarded when the hash
  and the block number are both there.\<close>

definition server_trace_step :: "string \<Rightarrow> py_error + intent" where
  "server_trace_step message =
     bind_result (detect_transaction_trace_query message) (\<lambda>(h, b, net).
       if truthy h \<and> truthy b
       then Inr (TransactionTrace h b (map_option chain_id_or_default net))
       else Inr NoIntent)"

section \<open>Addresses and hashes as shapes of text\<close>

text \<open>
  The shape 0x followed by n hexadecimal digits, at the head of a text and as a whole
  text, and the leftmost place of a text where the shape begins.
\<close>

definition hex_id_prefix :: "nat \<Rightarrow> string \<Rightarrow> bool" where
  "hex_id_prefix n cs =
     (starts_with ''0x'' cs \<and> n \<le> length (drop 2 cs) \<and> list_all is_hex (take n (drop 2 cs)))"

definition hex_id :: "nat \<Rightarrow> string \<Rightarrow> bool" where
  "hex_id n a = (hex_id_prefix n a \<and> length a = n + 2)"

fun first_hex_id :: "nat \<Rightarrow> string \<Rightarrow> string option" where
  "first_hex_id n [] = None"
| "first_hex_id n (c # cs) =
     (if hex_id_prefix n (c # cs) then Some (take (n + 2) (c # cs)) else first_hex_id n cs)"

text \<open>The character before the position reached after reading a word.\<close>

definition after :: "char option \<Rightarrow> string \<Rightarrow> char option" where
  "after pc w = (if w = [] then pc else Some (last w))"

definition hex_pattern :: "nat \<Rightarrow> rx" where
  "hex_pattern n = cat [lit ''0x'', rep n (Cls is_hex)]"


section \<open>Texts used as examples\<close>

definition address_ones :: string where
  "address_ones = ''0x1111111111111111111111111111111111111111''"

definition address_twos :: string where
  "address_twos = ''0x2222222222222222222222222222222222222222''"

definition hash_ones :: string where
  "hash_ones = ''0x1111111111111111111111111111111111111111111111111111111111111111''"

definition text_value_profit :: string where
  "text_value_profit = ''value profit 0x1111111111111111111111111111111111111111''"

definition text_value_details :: string where
  "text_value_details =
     ''what is the value and details of token 0xABCDEFabcdefABCDEFabcdefABCDEFabcdef1234''"

definition only_value_and_profitloss :: detection where
  "only_value_and_profitloss =
     \<lparr>network = None, nft_wallet_address = None, nft_network = None,
      currency = None, spot_network = None,
      token_address = Some address_ones, token_network = Some ''ethereum'',
      details_token_address = None, details_token_network = None,
      profitloss_token_address = Some address_ones,
      profitloss_token_network = Some ''ethereum'', profitloss_timerange = Some ''1day'',
      tx_hash = None, block_number = None, tx_network = None,
      wallet_address = None, history_network = None\<rparr>"

definition only_value_and_details :: detection where
  "only_value_and_details =
     \<lparr>network = None, nft_wallet_address = None, nft_network = None,
      currency = None, spot_network = None,
      token_address = Some ''0xABCDEFabcdefABCDEFabcdefABCDEFabcdef1234'',
      token_network = Some ''ethereum'',
      details_token_address = Some ''0xABCDEFabcdefABCDEFabcdefABCDEFabcdef1234'',
      details_token_network = Some ''ethereum'',
      profitloss_token_address = None,
      profitloss_token_network = None, profitloss_timerange = None,
      tx_hash = None, block_number = None, tx_network = None,
      wallet_address = None, history_network = None\<rparr>"

definition only_details_and_profitloss :: detection where
  "only_details_and_profitloss =
     \<lparr>network = None, nft_wallet_address = None, nft_network = None,
      currency = None, spot_network = None,
      token_address = None, token_network = None,
      details_token_address = Some address_ones, details_token_network = Some ''ethereum'',
      profitloss_token_address = Some address_ones,
      profitloss_token_network = Some ''ethereum'', profitloss_timerange = Some ''1day'',
      tx_hash = None, block_number = None, tx_network = None,
      wallet_address = None, history_network = None\<rparr>"


definition words_before_hash :: string where
  "words_before_hash = ''nft holdings profit history cost data ''"

definition text_profit_history_hash :: string where
  "text_profit_history_hash = words_before_hash @ hash_ones"

definition text_trace_block :: string where
  "text_trace_block = ''trace tx '' @ hash_ones @ '' in block 18500000''"

definition only_trace :: detection where
  "only_trace =
     \<lparr>network = None, nft_wallet_address = None, nft_network = None,
      currency = None, spot_network = None,
      token_address = None, token_network = None,
      details_token_address = None, details_token_network = None,
      profitloss_token_address = None,
      profitloss_token_network = None, profitloss_timerange = None,
      tx_hash = Some hash_ones, block_number = Some ''18500000'',
      tx_network = Some ''ethereum'',
      wallet_address = None, history_network = None\<rparr>"

definition text_all_three :: string where
  "text_all_three = ''value details profit loss 0x1111111111111111111111111111111111111111''"

definition all_three_tokens :: detection where
  "all_three_tokens =
     \<lparr>network = None, nft_wallet_address = None, nft_network = None,
      currency = None, spot_network = None,
      token_address = Some address_ones, token_network = Some ''ethereum'',
      details_token_address = Some address_ones, details_token_network = Some ''ethereum'',
      profitloss_token_address = Some address_ones,
      profitloss_token_network = Some ''ethereum'', profitloss_timerange = Some ''1day'',
      tx_hash = None, block_number = None, tx_network = None,
      wallet_address = None, history_network = None\<rparr>"


definition text_address_then_hash :: string where
  "text_address_then_hash = ''profit '' @ address_twos @ '' '' @ hash_ones"

definition text_excluded_hash :: string where
  "text_excluded_hash = ''token details cost '' @ hash_ones"

section \<open>Facts about the search\<close>

lemma starts_with_iff: "starts_with w cs \<longleftrightarrow> take (length w) cs = w"
  by (induction w cs rule: starts_with.induct) auto

lemma starts_with_append: "starts_with w (w @ rest)"
  by (simp add: starts_with_iff)

lemma contains_iff: "contains w s \<longleftrightarrow> (\<exists>pre post. s = pre @ w @ post)"
proof (induction s)
  case Nil
  show ?case by auto
next
  case (Cons c cs)
  show ?case
  proof
    assume "contains w (c # cs)"
    then consider "starts_with w (c # cs)" | "contains w cs" by auto
    then show "\<exists>pre post. c # cs = pre @ w @ post"
    proof cases
      case 1
      then have "c # cs = [] @ w @ drop (length w) (c # cs)"
        by (metis append_Nil append_take_drop_id starts_with_iff)
      then show ?thesis by blast
    next
      case 2
      then obtain pre post where "cs = pre @ w @ post" using Cons.IH by blast
      then have "c # cs = (c # pre) @ w @ post" by simp
      then show ?thesis by blast
    qed
  next
    assume "\<exists>pre post. c # cs = pre @ w @ post"
    then obtain pre post where e: "c # cs = pre @ w @ post" by blast
    show "contains w (c # cs)"
    proof (cases pre)
      case Nil
      then have "starts_with w (c # cs)" using e by (simp add: starts_with_iff)
      then show ?thesis by simp
    next
      case (Cons p ps)
      then have "cs = ps @ w @ post" using e by simp
      then have "contains w cs" using Cons.IH by blast
      then show ?thesis by simp
    qed
  qed
qed

lemma rmatch_cat_Nil: "rmatch (cat []) k = k"
  by (rule ext) (simp add: cat_def)

lemma rmatch_cat_Cons: "rmatch (cat (r # rs)) k s = rmatch r (rmatch (cat rs) k) s"
  by (simp add: cat_def)

lemma rmatch_lit:
  "rmatch (lit w) k (pc, cs, g) =
     (if starts_with w cs then k (after pc w, drop (length w) cs, g) else None)"
proof (induction w arbitrary: pc cs)
  case Nil
  show ?case by (simp add: lit_def after_def)
next
  case (Cons a w)
  have unf: "lit (a # w) = Seq (Cls (\<lambda>d. d = a)) (lit w)" by (simp add: lit_def)
  show ?case
  proof (cases cs)
    case Nil
    then show ?thesis by (simp add: unf)
  next
    case (Cons c cs')
    then show ?thesis using Cons.IH [of "Some c" cs']
      by (auto simp add: unf after_def)
  qed
qed

lemma rmatch_rep_Cls:
  "rmatch (rep n (Cls p)) k (pc, cs, g) =
     (if n \<le> length cs \<and> list_all p (take n cs)
      then k (after pc (take n cs), drop n cs, g) else None)"
proof (induction n arbitrary: pc cs)
  case 0
  show ?case by (simp add: rep_def cat_def after_def)
next
  case (Suc n)
  have unf: "rep (Suc n) (Cls p) = Seq (Cls p) (rep n (Cls p))" by (simp add: rep_def cat_def)
  show ?case
  proof (cases cs)
    case Nil
    then show ?thesis by (simp add: unf)
  next
    case (Cons c cs')
    then show ?thesis using Suc.IH [of "Some c" cs']
      by (auto simp add: unf after_def)
  qed
qed

lemma rmatch_hex_pattern:
  "rmatch (hex_pattern n) Some (pc, cs, g) =
     (if hex_id_prefix n cs
      then Some (after (Some CHR ''x'') (take n (drop 2 cs)), drop (n + 2) cs, g) else None)"
proof -
  have l: "length ''0x'' = 2" by simp
  have a: "after pc ''0x'' = Some CHR ''x''" by (simp add: after_def)
  have d: "drop n (drop 2 cs) = drop (n + 2) cs" by simp
  show ?thesis
    unfolding hex_pattern_def rmatch_cat_Cons rmatch_cat_Nil rmatch_lit rmatch_rep_Cls l a d
      hex_id_prefix_def
    by simp
qed

lemma hex_id_prefix_length: "hex_id_prefix n cs \<Longrightarrow> n + 2 \<le> length cs"
proof -
  assume h: "hex_id_prefix n cs"
  then have "take (length ''0x'') cs = ''0x''" by (simp only: hex_id_prefix_def starts_with_iff)
  then have "length (take (length ''0x'') cs) = length ''0x''" by (rule arg_cong)
  then have "2 \<le> length cs" by (simp add: min_def split: if_splits)
  moreover have "n \<le> length cs - 2" using h by (simp add: hex_id_prefix_def)
  ultimately show ?thesis by simp
qed

lemma ngroups_hex_pattern: "ngroups (hex_pattern n) = 0"
proof -
  have "ngroups (rep n (Cls is_hex)) = 0" 
    by (induction n) (simp_all add: rep_def cat_def)
  then show ?thesis by (simp add: hex_pattern_def cat_def lit_def)
qed

lemma search_from_hex_pattern:
  "search_from (rmatch (hex_pattern n) Some) (ngroups (hex_pattern n)) pc cs =
     map_option (\<lambda>a. \<lparr>group0 = a, group1 = None, groups = 0\<rparr>) (first_hex_id n cs)"
proof (induction cs arbitrary: pc)
  case Nil
  show ?case by (simp add: rmatch_hex_pattern hex_id_prefix_def)
next
  case (Cons c cs)
  show ?case
  proof (cases "hex_id_prefix n (c # cs)")
    case True
    then have "n + 2 \<le> length (c # cs)" by (rule hex_id_prefix_length)
    then have "length (c # cs) - length (drop (n + 2) (c # cs)) = n + 2" by simp
    then show ?thesis using True
      by (simp add: rmatch_hex_pattern ngroups_hex_pattern del: drop.simps take.simps)
  next
    case False
    then show ?thesis using Cons.IH by (simp add: rmatch_hex_pattern)
  qed
qed

lemma re_search_address:
  "re_search eth_address_pattern text =
     map_option (\<lambda>a. \<lparr>group0 = a, group1 = None, groups = 0\<rparr>) (first_hex_id 40 text)"
  using search_from_hex_pattern [of 40 None "text"]
  by (simp add: re_search_def eth_address_pattern_def hex_pattern_def)

lemma re_search_tx_hash:
  "re_search tx_hash_pattern text =
     map_option (\<lambda>a. \<lparr>group0 = a, group1 = None, groups = 0\<rparr>) (first_hex_id 64 text)"
  using search_from_hex_pattern [of 64 None "text"]
  by (simp add: re_search_def tx_hash_pattern_def hex_pattern_def)

lemma group0_or_none_address:
  "group0_or_none (re_search eth_address_pattern text) = Inr (first_hex_id 40 text)"
  by (cases "first_hex_id 40 text") (simp_all add: re_search_address group0_or_none_def group_def)

lemma group0_or_none_tx_hash:
  "group0_or_none (re_search tx_hash_pattern text) = Inr (first_hex_id 64 text)"
  by (cases "first_hex_id 64 text") (simp_all add: re_search_tx_hash group0_or_none_def group_def)

lemma search_from_hit:
  "rmatch r Some (after pc pre, rest, None) \<noteq> None \<Longrightarrow> search_from (rmatch r Some) n pc (pre @ rest) \<noteq> None"
proof (induction pre arbitrary: pc)
  case Nil
  then show ?case by (cases rest) (auto simp add: after_def split: option.splits)
next
  case (Cons p ps)
  have "after (Some p) ps = after pc (p # ps)" by (simp add: after_def)
  then have "search_from (rmatch r Some) n (Some p) (ps @ rest) \<noteq> None" using Cons by simp
  then show ?case by (auto split: option.splits)
qed

lemma re_search_hit:
  assumes "contains w s"
    and "\<And>pc rest. rmatch r Some (pc, w @ rest, None) \<noteq> None"
  shows "re_search r s \<noteq> None"
proof -
  obtain pre post where "s = pre @ w @ post" using assms(1) contains_iff by blast
  then show ?thesis using search_from_hit [of r None pre "w @ post" "ngroups r"] assms(2)
    by (simp add: re_search_def)
qed

lemma search_from_groups: "search_from f n pc cs = Some m \<Longrightarrow> groups m = n"
  by (induction cs arbitrary: pc) (auto split: option.splits)

lemma re_search_groups: "re_search r s = Some m \<Longrightarrow> groups m = ngroups r"
  by (simp add: re_search_def search_from_groups)

lemma ngroups_lit: "ngroups (lit w) = 0"
  by (induction w) (simp_all add: lit_def)

lemma ngroups_alts: "ngroups (alts rs) = sum_list (map ngroups rs)"
  by (induction rs rule: alts.induct) simp_all

lemma ngroups_one_of: "ngroups (one_of ws) = 0"
  by (induction ws) (simp_all add: one_of_def ngroups_alts ngroups_lit)

lemma ngroups_cat: "ngroups (cat rs) = sum_list (map ngroups rs)"
  by (induction rs) (simp_all add: cat_def)

lemma ngroups_block_number_pattern: "ngroups block_number_pattern = 1"
  by (simp add: block_number_pattern_def ngroups_cat ngroups_alts ngroups_one_of)

lemma group_zero: "group m 0 = Inr (Some (group0 m))"
  by (simp add: group_def)

lemma group0_or_none_total: "\<exists>v. group0_or_none m = Inr v"
  by (cases m) (simp_all add: group0_or_none_def group_zero)

lemma extract_block_number_total: "\<exists>v. extract_block_number text = Inr v"
proof (cases "re_search block_number_pattern text")
  case None
  then show ?thesis using group0_or_none_total by (simp add: extract_block_number_def)
next
  case (Some m)
  then have "groups m = 1" using re_search_groups ngroups_block_number_pattern by simp
  then show ?thesis using Some by (simp add: extract_block_number_def group_def)
qed

lemma gas_total:
  "detect_gas_price_query text = Inr None \<or> (\<exists>net. detect_gas_price_query text = Inr (Some net))"
  by (simp add: detect_gas_price_query_def Let_def split: option.splits)

lemma nft_total:
  "detect_nft_holdings_query text = Inr (None, None)
   \<or> (\<exists>a net. detect_nft_holdings_query text = Inr (a, Some net))"
  by (simp add: detect_nft_holdings_query_def Let_def group0_or_none_address)

lemma spot_total:
  "detect_spot_price_query text = Inr (None, None)
   \<or> (\<exists>cur net. detect_spot_price_query text = Inr (Some cur, Some net))"
  by (simp add: detect_spot_price_query_def Let_def)

lemma value_total:
  "detect_token_value_query text = Inr (None, None)
   \<or> (\<exists>a net. detect_token_value_query text = Inr (a, Some net))"
  by (simp add: detect_token_value_query_def Let_def group0_or_none_address)

lemma details_total:
  "detect_token_details_query text = Inr (None, None)
   \<or> (\<exists>a net. detect_token_details_query text = Inr (a, Some net))"
  by (simp add: detect_token_details_query_def Let_def group0_or_none_address)

lemma profitloss_total:
  "detect_token_profitloss_query text = Inr (None, None, None)
   \<or> (\<exists>a net tr. detect_token_profitloss_query text = Inr (a, Some net, Some tr))"
  by (simp add: detect_token_profitloss_query_def Let_def group0_or_none_address)

lemma trace_total:
  "detect_transaction_trace_query text = Inr (None, None, None)
   \<or> (\<exists>h b net. detect_transaction_trace_query text = Inr (h, b, Some net))"
proof -
  obtain b where "extract_block_number text = Inr b" using extract_block_number_total by blast
  then show ?thesis
    by (simp add: detect_transaction_trace_query_def Let_def group0_or_none_tx_hash)
qed

lemma history_total:
  "detect_transaction_history_query text = Inr (None, None)
   \<or> (\<exists>a net. detect_transaction_history_query text = Inr (a, Some net))"
  by (simp add: detect_transaction_history_query_def Let_def group0_or_none_address)

lemma run_detectors_total: "\<exists>d. run_detectors text = Inr d"
proof -
  obtain r1 where 1: "detect_gas_price_query text = Inr r1" using gas_total by blast
  obtain r2 where 2: "detect_nft_holdings_query text = Inr r2" using nft_total by blast
  obtain r3 where 3: "detect_spot_price_query text = Inr r3" using spot_total by blast
  obtain r4 where 4: "detect_token_value_query text = Inr r4" using value_total by blast
  obtain r5 where 5: "detect_token_details_query text = Inr r5" using details_total by blast
  obtain r6 where 6: "detect_token_profitloss_query text = Inr r6" using profitloss_total by blast
  obtain r7 where 7: "detect_transaction_trace_query text = Inr r7" using trace_total by blast
  obtain r8 where 8: "detect_transaction_history_query text = Inr r8" using history_total by blast
  show ?thesis
    by (simp add: run_detectors_def bind_result_def 1 2 3 4 5 6 7 8 split: prod.splits)
qed

lemma resolve_value_details_conflict:
  assumes "truthy (token_address d)" and "token_address d = details_token_address d"
  shows "resolve_value_details user_input d =
     (if keyword_score details_keywords user_input > keyword_score value_keywords user_input
      then d\<lparr>token_address := None, token_network := None\<rparr>
      else d\<lparr>details_token_address := None, details_token_network := None\<rparr>)"
  using assms by (simp add: resolve_value_details_def Let_def)

lemma resolve_value_details_no_conflict:
  "token_address d \<noteq> details_token_address d \<Longrightarrow> resolve_value_details user_input d = d"
  by (simp add: resolve_value_details_def)

lemma resolve_profitloss_no_conflict:
  assumes "\<not> (truthy (token_address d) \<and> token_address d = profitloss_token_address d)"
    and "\<not> (truthy (details_token_address d)
              \<and> details_token_address d = profitloss_token_address d)"
  shows "resolve_profitloss user_input d = d"
proof -
  have a: "resolve_profitloss_value user_input s d = d" for s
    unfolding resolve_profitloss_value_def using assms(1) by (rule if_not_P)
  have b: "resolve_profitloss_details user_input s d = d" for s
    unfolding resolve_profitloss_details_def using assms(2) by (rule if_not_P)
  show ?thesis by (simp add: resolve_profitloss_def Let_def a b)
qed

lemma truthy_not_None: "truthy v \<Longrightarrow> v \<noteq> None"
  by (cases v) (simp_all add: truthy_def)

lemma disambiguate_value_details:
  assumes "truthy (token_address d)" and "token_address d = details_token_address d"
    and "profitloss_token_address d \<noteq> token_address d"
  shows "disambiguate user_input d =
     (if keyword_score details_keywords user_input > keyword_score value_keywords user_input
      then d\<lparr>token_address := None, token_network := None\<rparr>
      else d\<lparr>details_token_address := None, details_token_network := None\<rparr>)"
proof -
  let ?d = "resolve_value_details user_input d"
  have r: "?d = (if keyword_score details_keywords user_input
                      > keyword_score value_keywords user_input
      then d\<lparr>token_address := None, token_network := None\<rparr>
      else d\<lparr>details_token_address := None, details_token_network := None\<rparr>)"
    using assms(1,2) by (rule resolve_value_details_conflict)
  have "resolve_profitloss user_input ?d = ?d"
  proof (rule resolve_profitloss_no_conflict)
    show "\<not> (truthy (token_address ?d) \<and> token_address ?d = profitloss_token_address ?d)"
      using assms by (auto simp add: r truthy_def)
    show "\<not> (truthy (details_token_address ?d)
              \<and> details_token_address ?d = profitloss_token_address ?d)"
      using assms by (auto simp add: r truthy_def)
  qed
  then show ?thesis by (simp add: disambiguate_def r)
qed

lemma truthy_None: "\<not> truthy None"
  by (simp add: truthy_def)

lemma disambiguate_profitloss_value:
  assumes "truthy (token_address d)" and "token_address d = profitloss_token_address d"
    and "details_token_address d \<noteq> token_address d"
  shows "disambiguate user_input d =
     (if keyword_score profitloss_keywords user_input > keyword_score value_keywords user_input
      then d\<lparr>token_address := None, token_network := None\<rparr>
      else d\<lparr>profitloss_token_address := None, profitloss_token_network := None,
             profitloss_timerange := None\<rparr>)"
proof -
  let ?ps = "keyword_score profitloss_keywords user_input"
  let ?d1 = "resolve_profitloss_value user_input ?ps d"
  have 1: "resolve_value_details user_input d = d"
    using assms(3) by (simp add: resolve_value_details_no_conflict)
  have tp: "truthy (profitloss_token_address d)" using assms(1,2) by simp
  have pv: "?d1 =
     (if ?ps > keyword_score value_keywords user_input
      then d\<lparr>token_address := None, token_network := None\<rparr>
      else d\<lparr>profitloss_token_address := None, profitloss_token_network := None,
             profitloss_timerange := None\<rparr>)"
    using assms(1,2) by (simp add: resolve_profitloss_value_def Let_def)
  have "\<not> (truthy (details_token_address ?d1)
            \<and> details_token_address ?d1 = profitloss_token_address ?d1)"
    using assms(2,3) by (auto simp add: pv dest: truthy_not_None)
  then have pd: "resolve_profitloss_details user_input ?ps ?d1 = ?d1"
    unfolding resolve_profitloss_details_def by (rule if_not_P)
  have "disambiguate user_input d = ?d1"
    by (simp add: disambiguate_def 1 resolve_profitloss_def tp Let_def pd)
  then show ?thesis by (simp only: pv)
qed

lemma disambiguate_profitloss_details:
  assumes "truthy (details_token_address d)"
    and "details_token_address d = profitloss_token_address d"
    and "token_address d \<noteq> details_token_address d"
  shows "disambiguate user_input d =
     (if keyword_score profitloss_keywords user_input
           > keyword_score details_keywords user_input
      then d\<lparr>details_token_address := None, details_token_network := None\<rparr>
      else d\<lparr>profitloss_token_address := None, profitloss_token_network := None,
             profitloss_timerange := None\<rparr>)"
proof -
  let ?ps = "keyword_score profitloss_keywords user_input"
  have 1: "resolve_value_details user_input d = d"
    using assms(3) by (simp add: resolve_value_details_no_conflict)
  have tp: "truthy (profitloss_token_address d)" using assms(1,2) by simp
  have "\<not> (truthy (token_address d) \<and> token_address d = profitloss_token_address d)"
    using assms(2,3) by simp
  then have pv: "resolve_profitloss_value user_input ?ps d = d"
    unfolding resolve_profitloss_value_def by (rule if_not_P)
  have pd: "resolve_profitloss_details user_input ?ps d =
     (if ?ps > keyword_score details_keywords user_input
      then d\<lparr>details_token_address := None, details_token_network := None\<rparr>
      else d\<lparr>profitloss_token_address := None, profitloss_token_network := None,
             profitloss_timerange := None\<rparr>)"
    using assms(1,2) by (simp add: resolve_profitloss_details_def Let_def)
  show ?thesis
    by (simp only: disambiguate_def 1 resolve_profitloss_def tp Let_def pv pd if_True)
qed

lemma lower_char_code [code]:
  "lower_char (Char b0 b1 b2 b3 b4 b5 b6 b7) =
     (if (if b7 then (b6 \<and> (\<not> b5 \<and> (\<not> b4 \<or> (if b3 then (\<not> b2 \<or>
     (\<not> b1 \<or> \<not> b0)) else (\<not> b2 \<or> (\<not> b1 \<or> \<not> b0)))))) else
     (b6 \<and> (\<not> b5 \<and> (if b4 then (\<not> b3 \<or> (\<not> b2 \<and> (\<not> b1
     \<or> \<not> b0))) else (b3 \<or> (b2 \<or> (b1 \<or> b0)))))))
      then Char b0 b1 b2 b3 b4 True b6 b7 else Char b0 b1 b2 b3 b4 b5 b6 b7)"
  by (cases b0; cases b1; cases b2; cases b3; cases b4; cases b5; cases b6; cases b7;
      simp add: lower_char_def code_point_def char_of_eq_iff)

lemma is_word_code [code]:
  "is_word (Char b0 b1 b2 b3 b4 b5 b6 b7) =
     (if b7 then (if b6 then (if b5 then (\<not> b4 \<or> (b3 \<or> (\<not> b2 \<or> (\<not>
     b1 \<or> \<not> b0)))) else (\<not> b4 \<or> (b3 \<or> (\<not> b2 \<or> (\<not> b1 \<or>
     \<not> b0))))) else (b5 \<and> (if b4 then (if b3 then (if b2 then (\<not> b1 \<or>
     \<not> b0) else (if b1 then \<not> b0 else b0)) else (if b2 then (\<not> b1 \<and> b0)
     else b1)) else (b3 \<and> (\<not> b2 \<and> (b1 \<and> \<not> b0)))))) else (if b6 then
     (if b5 then (if b4 then (\<not> b3 \<or> (\<not> b2 \<and> (\<not> b1 \<or> \<not> b0)))
     else (b3 \<or> (b2 \<or> (b1 \<or> b0)))) else (if b4 then (\<not> b3 \<or> (if b2 then
     (b1 \<and> b0) else (\<not> b1 \<or> \<not> b0))) else (b3 \<or> (b2 \<or> (b1 \<or>
     b0))))) else (b5 \<and> (b4 \<and> (\<not> b3 \<or> (\<not> b2 \<and> \<not> b1))))))"
  by (cases b0; cases b1; cases b2; cases b3; cases b4; cases b5; cases b6; cases b7;
      simp add: is_word_def code_point_def)

lemma run_detectors_value_profit: "run_detectors text_value_profit = Inr only_value_and_profitloss"
proof -
  have 1: "detect_gas_price_query text_value_profit = Inr None" by code_simp
  have 2: "detect_nft_holdings_query text_value_profit = Inr (None, None)" by code_simp
  have 3: "detect_spot_price_query text_value_profit = Inr (None, None)" by code_simp
  have 4: "detect_token_value_query text_value_profit
             = Inr (Some address_ones, Some ''ethereum'')" by code_simp
  have 5: "detect_token_details_query text_value_profit = Inr (None, None)" by code_simp
  have 6: "detect_token_profitloss_query text_value_profit
             = Inr (Some address_ones, Some ''ethereum'', Some ''1day'')" by code_simp
  have 7: "detect_transaction_trace_query text_value_profit = Inr (None, None, None)"
    by code_simp
  have 8: "detect_transaction_history_query text_value_profit = Inr (None, None)"
    by code_simp
  show ?thesis
    by (simp add: run_detectors_def bind_result_def 1 2 3 4 5 6 7 8
          only_value_and_profitloss_def)
qed

lemma scores_value_profit:
  "keyword_score value_keywords text_value_profit = 1
   \<and> keyword_score profitloss_keywords text_value_profit = 1"
  by code_simp

lemma run_detectors_value_details: "run_detectors text_value_details = Inr only_value_and_details"
proof -
  have 1: "detect_gas_price_query text_value_details = Inr None" by code_simp
  have 2: "detect_nft_holdings_query text_value_details = Inr (None, None)" by code_simp
  have 3: "detect_spot_price_query text_value_details = Inr (None, None)" by code_simp
  have 4: "detect_token_value_query text_value_details
             = Inr (Some ''0xABCDEFabcdefABCDEFabcdefABCDEFabcdef1234'', Some ''ethereum'')"
    by code_simp
  have 5: "detect_token_details_query text_value_details
             = Inr (Some ''0xABCDEFabcdefABCDEFabcdefABCDEFabcdef1234'', Some ''ethereum'')"
    by code_simp
  have 6: "detect_token_profitloss_query text_value_details = Inr (None, None, None)"
    by code_simp
  have 7: "detect_transaction_trace_query text_value_details = Inr (None, None, None)"
    by code_simp
  have 8: "detect_transaction_history_query text_value_details = Inr (None, None)"
    by code_simp
  show ?thesis
    by (simp add: run_detectors_def bind_result_def 1 2 3 4 5 6 7 8
          only_value_and_details_def)
qed

lemma scores_value_details:
  "keyword_score value_keywords text_value_details = 1
   \<and> keyword_score details_keywords text_value_details = 1"
  by code_simp

lemma scores_data_roi:
  "keyword_score details_keywords ''data roi 0x1111111111111111111111111111111111111111'' = 1
   \<and> keyword_score profitloss_keywords
         ''data roi 0x1111111111111111111111111111111111111111'' = 1"
  by code_simp

lemma truthy_address_ones: "truthy (Some address_ones)"
  by (simp add: truthy_def address_ones_def)

lemma hex_id_prefix_append:
  assumes "hex_id n a"
  shows "hex_id_prefix n (a @ post)"
proof -
  have l: "length a = n + 2" and p: "hex_id_prefix n a" using assms by (simp_all add: hex_id_def)
  have s: "take (length ''0x'') a = ''0x''" using p by (simp only: hex_id_prefix_def starts_with_iff)
  have "take (length ''0x'') (a @ post) = take (length ''0x'') a" using l by simp
  then have 1: "starts_with ''0x'' (a @ post)" using s by (simp only: starts_with_iff)
  have 2: "take n (drop 2 (a @ post)) = take n (drop 2 a)" using l by simp
  have 3: "list_all is_hex (take n (drop 2 a))" using p by (simp add: hex_id_prefix_def)
  show ?thesis unfolding hex_id_prefix_def using 1 2 3 l by simp
qed

lemma first_hex_id_head:
  assumes "hex_id n a"
  shows "first_hex_id n (a @ post) = Some a"
proof -
  have l: "length a = n + 2" using assms by (simp add: hex_id_def)
  then obtain c cs where c: "a @ post = c # cs" by (cases "a @ post") auto
  have "hex_id_prefix n (c # cs)" using hex_id_prefix_append [OF assms, of post] c by simp
  then have "first_hex_id n (c # cs) = Some (take (n + 2) (c # cs))" by simp
  then show ?thesis using c l by (metis append_eq_conv_conj)
qed

lemma first_hex_id_skip:
  "list_all (\<lambda>j. \<not> hex_id_prefix n (drop j (pre @ rest))) [0..<length pre]
   \<Longrightarrow> first_hex_id n (pre @ rest) = first_hex_id n rest"
proof (induction pre)
  case Nil
  show ?case by simp
next
  case (Cons p ps)
  have all: "\<forall>j<Suc (length ps). \<not> hex_id_prefix n (drop j (p # ps @ rest))"
    using Cons.prems by (auto simp add: list_all_iff less_Suc_eq)
  then have 0: "\<not> hex_id_prefix n (p # ps @ rest)" by (metis drop0 zero_less_Suc)
  have "\<forall>j<length ps. \<not> hex_id_prefix n (drop j (ps @ rest))"
  proof (intro allI impI)
    fix j assume "j < length ps"
    then have "\<not> hex_id_prefix n (drop (Suc j) (p # ps @ rest))" using all by blast
    then show "\<not> hex_id_prefix n (drop j (ps @ rest))" by simp
  qed
  then have "first_hex_id n (ps @ rest) = first_hex_id n rest"
    using Cons.IH by (simp add: list_all_iff)
  then show ?case using 0 by simp
qed

lemma first_hex_id_leftmost:
  assumes "text = pre @ a @ post" and "hex_id n a"
    and "list_all (\<lambda>j. \<not> hex_id_prefix n (drop j text)) [0..<length pre]"
  shows "first_hex_id n text = Some a"
  using assms first_hex_id_skip [of n "pre" "a @ post"] first_hex_id_head [of n "a" "post"]
  by simp

lemma first_hex_id_occurs:
  "first_hex_id n text = Some a \<Longrightarrow>
     \<exists>pre post. text = pre @ a @ post \<and> hex_id n a
        \<and> list_all (\<lambda>j. \<not> hex_id_prefix n (drop j text)) [0..<length pre]"
proof (induction "text")
  case Nil
  then show ?case by simp
next
  case (Cons c cs)
  show ?case
  proof (cases "hex_id_prefix n (c # cs)")
    case True
    then have a: "a = take (n + 2) (c # cs)" using Cons.prems by simp
    have len: "n + 2 \<le> length (c # cs)" using True by (rule hex_id_prefix_length)
    have s: "take (length ''0x'') (c # cs) = ''0x''"
      using True by (simp only: hex_id_prefix_def starts_with_iff)
    have "take (length ''0x'') a = take (length ''0x'') (c # cs)"
      unfolding a by (simp add: min_def)
    then have 1: "starts_with ''0x'' a" using s by (simp only: starts_with_iff)
    have 2: "drop 2 a = take n (drop 2 (c # cs))" unfolding a by (simp add: drop_take)
    have 3: "list_all is_hex (take n (drop 2 (c # cs)))"
      using True by (simp add: hex_id_prefix_def)
    have la: "length a = n + 2" unfolding a using len by simp
    have 4: "n \<le> length (drop 2 a)" using la by simp
    have 5: "list_all is_hex (take n (drop 2 a))" unfolding 2 using 3 by simp
    have "hex_id n a"
      unfolding hex_id_def hex_id_prefix_def using 1 4 5 la by blast
    moreover have "c # cs = [] @ a @ drop (n + 2) (c # cs)" unfolding a by simp
    moreover have "list_all (\<lambda>j. \<not> hex_id_prefix n (drop j (c # cs))) [0..<length ([]::string)]"
      by simp
    ultimately show ?thesis by blast
  next
    case False
    then have "first_hex_id n cs = Some a" using Cons.prems by simp
    then obtain pre post where p: "cs = pre @ a @ post" "hex_id n a"
      "list_all (\<lambda>j. \<not> hex_id_prefix n (drop j cs)) [0..<length pre]"
      using Cons.IH by blast
    have "\<forall>j<Suc (length pre). \<not> hex_id_prefix n (drop j (c # cs))"
    proof (intro allI impI)
      fix j assume j: "j < Suc (length pre)"
      show "\<not> hex_id_prefix n (drop j (c # cs))"
      proof (cases j)
        case 0
        then show ?thesis using False by simp
      next
        case (Suc i)
        then have "i < length pre" using j by simp
        then have "\<not> hex_id_prefix n (drop i cs)" using p(3) by (simp add: list_all_iff)
        then show ?thesis using Suc by simp
      qed
    qed
    then have "list_all (\<lambda>j. \<not> hex_id_prefix n (drop j (c # cs))) [0..<length (c # pre)]"
      by (simp add: list_all_iff)
    moreover have "c # cs = (c # pre) @ a @ post" using p(1) by simp
    ultimately show ?thesis using p(2) by blast
  qed
qed

lemma first_hex_id_Some_iff:
  "first_hex_id n text = Some a \<longleftrightarrow>
     (\<exists>pre post. text = pre @ a @ post \<and> hex_id n a
        \<and> list_all (\<lambda>j. \<not> hex_id_prefix n (drop j text)) [0..<length pre])"
  using first_hex_id_occurs first_hex_id_leftmost by blast

lemma hex_id_take:
  assumes "hex_id m h" and "n \<le> m"
  shows "hex_id n (take (n + 2) h)"
proof -
  have l: "length h = m + 2" and p: "hex_id_prefix m h" using assms by (simp_all add: hex_id_def)
  have s: "take (length ''0x'') h = ''0x''" using p by (simp only: hex_id_prefix_def starts_with_iff)
  have "take (length ''0x'') (take (n + 2) h) = take (length ''0x'') h" by (simp add: min_def)
  then have 1: "starts_with ''0x'' (take (n + 2) h)" using s by (simp only: starts_with_iff)
  have 2: "drop 2 (take (n + 2) h) = take n (drop 2 h)" by (simp add: drop_take)
  have "list_all is_hex (take m (drop 2 h))" using p by (simp add: hex_id_prefix_def)
  then have "list_all is_hex (drop 2 h)" using l by simp
  then have 3: "list_all is_hex (take n (drop 2 h))"
    by (metis append_take_drop_id list_all_append)
  have 4: "n \<le> length (drop 2 (take (n + 2) h))" using l assms(2) by simp
  have 5: "list_all is_hex (take n (drop 2 (take (n + 2) h)))" unfolding 2 using 3 by simp
  have 6: "length (take (n + 2) h) = n + 2" using l assms(2) by simp
  show ?thesis unfolding hex_id_def hex_id_prefix_def using 1 4 5 6 by blast
qed

lemma re_search_lit_contains: "contains w s \<Longrightarrow> re_search (lit w) s \<noteq> None"
proof (rule re_search_hit)
  fix pc rest
  show "rmatch (lit w) Some (pc, w @ rest, None) \<noteq> None"
    by (simp add: rmatch_lit starts_with_append)
qed

lemma token_details_phrase_excluded:
  "contains ''token details'' (py_lower text)
   \<Longrightarrow> any_match value_token_details_patterns (py_lower text)"
  using re_search_lit_contains [of "''token details''" "py_lower text"]
  by (simp add: any_match_def value_token_details_patterns_def)

lemma value_excluded:
  "any_match value_token_details_patterns (py_lower text)
   \<Longrightarrow> detect_token_value_query text = Inr (None, None)"
  by (simp add: detect_token_value_query_def)

lemma network_keys_list:
  "network_keys = [''ethereum'', ''eth'', ''mainnet'', ''binance'', ''bsc'', ''polygon'',
                   ''matic'', ''avalanche'', ''avax'', ''arbitrum'', ''optimism'', ''base'',
                   ''fantom'', ''ftm'', ''aurora'']"
  by (simp add: network_keys_def NETWORK_TO_CHAIN_ID_def)

lemma network_keys_lower: "list_all (\<lambda>net. py_lower net = net) network_keys"
  by code_simp

lemma find_cong_on: "(\<And>x. x \<in> set xs \<Longrightarrow> P x = Q x) \<Longrightarrow> find P xs = find Q xs"
  by (induction xs) simp_all

lemma scan_network_raw:
  "scan_network text = find (\<lambda>net. contains net (py_lower text)) network_keys"
  unfolding scan_network_def
proof (rule find_cong_on)
  fix x assume "x \<in> set network_keys"
  then have "py_lower x = x" using network_keys_lower by (simp add: list_all_iff)
  then show "contains (py_lower x) (py_lower text) = contains x (py_lower text)" by simp
qed

lemma contains_part:
  assumes "contains (u @ w @ v) s"
  shows "contains w s"
proof -
  obtain pre post where "s = pre @ (u @ w @ v) @ post" using assms contains_iff by blast
  then have "s = (pre @ u) @ w @ (v @ post)" by simp
  then show ?thesis using contains_iff by blast
qed

lemma automatic_has_matic: "contains ''automatic'' s \<Longrightarrow> contains ''matic'' s"
  using contains_part [of "''auto''" "''matic''" "[]" s] by simp

lemma scan_network_matic:
  assumes "contains ''matic'' (py_lower text)"
    and "list_all (\<lambda>net. \<not> contains net (py_lower text))
           [''ethereum'', ''eth'', ''mainnet'', ''binance'', ''bsc'', ''polygon'']"
  shows "scan_network text = Some ''matic''"
  using assms by (simp add: scan_network_raw network_keys_list)

lemma extract_network_Some:
  "scan_network text = Some net \<Longrightarrow> net \<noteq> [] \<Longrightarrow> extract_network text = net"
  by (simp add: extract_network_def truthy_def)

lemma chain_id_matic: "chain_id_or_default ''matic'' = ''137'' \<and> get_chain_id ''matic'' = Some ''137''"
  by code_simp

lemma address_found:
  "first_hex_id 40 text = Some a \<Longrightarrow> re_search eth_address_pattern text \<noteq> None"
  by (simp add: re_search_address)

lemma profitloss_with_keyword:
  assumes "first_hex_id 40 text = Some a"
    and "any_keyword profitloss_keywords (py_lower text)"
  shows "detect_token_profitloss_query text
           = Inr (Some a, Some (extract_network text), Some (extract_timerange text))"
  using assms address_found [OF assms(1)]
  by (simp add: detect_token_profitloss_query_def Let_def group0_or_none_address)

lemma history_with_keyword:
  assumes "first_hex_id 40 text = Some a"
    and "any_keyword history_keywords (py_lower text)"
  shows "detect_transaction_history_query text = Inr (Some a, Some (extract_network text))"
  using assms address_found [OF assms(1)]
  by (simp add: detect_transaction_history_query_def Let_def group0_or_none_address)

lemma details_with_keyword:
  assumes "first_hex_id 40 text = Some a"
    and "any_keyword details_keywords (py_lower text)"
  shows "detect_token_details_query text = Inr (Some a, Some (extract_network text))"
  using assms address_found [OF assms(1)]
  by (simp add: detect_token_details_query_def Let_def group0_or_none_address)

lemma value_with_keyword:
  assumes "first_hex_id 40 text = Some a"
    and "any_keyword value_keywords (py_lower text)"
    and "\<not> any_match value_token_details_patterns (py_lower text)"
  shows "detect_token_value_query text = Inr (Some a, Some (extract_network text))"
  using assms address_found [OF assms(1)]
  by (simp add: detect_token_value_query_def Let_def group0_or_none_address)

lemma nft_with_template:
  assumes "first_hex_id 40 text = Some a"
    and "any_match nft_patterns (py_lower text)"
  shows "detect_nft_holdings_query text = Inr (Some a, Some (extract_network text))"
  using assms
  by (simp add: detect_nft_holdings_query_def Let_def group0_or_none_address)

lemma profit_is_keyword:
  "contains ''profit'' s \<Longrightarrow> any_keyword profitloss_keywords s"
  by (simp add: any_keyword_def profitloss_keywords_def)





lemma value_profit_facts:
  "first_hex_id 40 text_value_profit = Some address_ones
   \<and> contains ''profit'' (py_lower text_value_profit)
   \<and> list_all (\<lambda>(p, v). re_search p (py_lower text_value_profit) = None) timerange_patterns
   \<and> extract_network text_value_profit = ''ethereum''"
  by code_simp


lemma address_inside_hash:
  assumes "text = pre @ h @ post" and "hex_id 64 h"
    and "list_all (\<lambda>j. \<not> hex_id_prefix 40 (drop j text)) [0..<length pre]"
  shows "first_hex_id 40 text = Some (take 42 h)"
proof -
  have a: "hex_id 40 (take (40 + 2) h)" using assms(2) by (rule hex_id_take) simp
  have "h = take 42 h @ drop 42 h" by simp
  then have "text = pre @ take 42 h @ (drop 42 h @ post)" using assms(1) by simp
  then show ?thesis using a assms(3) first_hex_id_leftmost [of "text" "pre" "take 42 h"] by simp
qed

lemma profit_history_hash_facts:
  "hex_id 64 hash_ones
   \<and> list_all (\<lambda>j. \<not> hex_id_prefix 40 (drop j text_profit_history_hash))
        [0..<length words_before_hash]
   \<and> any_keyword profitloss_keywords (py_lower text_profit_history_hash)
   \<and> any_keyword history_keywords (py_lower text_profit_history_hash)
   \<and> any_keyword details_keywords (py_lower text_profit_history_hash)
   \<and> any_keyword value_keywords (py_lower text_profit_history_hash)
   \<and> \<not> any_match value_token_details_patterns (py_lower text_profit_history_hash)
   \<and> any_match nft_patterns (py_lower text_profit_history_hash)
   \<and> take 42 hash_ones = address_ones"
  by code_simp

lemma hash_found:
  "first_hex_id 64 text = Some h \<Longrightarrow> re_search tx_hash_pattern text \<noteq> None"
  by (simp add: re_search_tx_hash)

lemma trace_with_hash:
  assumes "first_hex_id 64 text = Some h"
  shows "\<exists>b. detect_transaction_trace_query text = Inr (Some h, b, Some (extract_network text))"
proof -
  obtain b where "extract_block_number text = Inr b" using extract_block_number_total by blast
  then show ?thesis
    using assms hash_found [OF assms]
    by (simp add: detect_transaction_trace_query_def Let_def group0_or_none_tx_hash)
qed

lemma trace_hash_only:
  assumes "first_hex_id 64 text = Some h"
    and "re_search block_number_pattern text = None"
    and "re_search block_number_simple_pattern text = None"
  shows "detect_transaction_trace_query text = Inr (Some h, None, Some (extract_network text))"
proof -
  have "extract_block_number text = Inr None"
    using assms(2,3) by (simp add: extract_block_number_def group0_or_none_def)
  then show ?thesis
    using assms(1) hash_found [OF assms(1)]
    by (simp add: detect_transaction_trace_query_def Let_def group0_or_none_tx_hash)
qed

lemma server_trace_step_forwards:
  assumes "server_trace_step message = Inr (TransactionTrace th bn cid)"
  shows "truthy th \<and> truthy bn
         \<and> (\<exists>net. detect_transaction_trace_query message = Inr (th, bn, net))"
proof -
  obtain r where r: "detect_transaction_trace_query message = Inr r"
    using trace_total by blast
  obtain h b net where p: "r = (h, b, net)" by (cases r)
  show ?thesis
    using assms r p
    by (auto simp add: server_trace_step_def bind_result_def split: if_splits)
qed

lemma server_trace_step_no_block:
  "detect_transaction_trace_query message = Inr (h, None, net)
   \<Longrightarrow> server_trace_step message = Inr NoIntent"
  by (simp add: server_trace_step_def bind_result_def truthy_def)

lemma resolve_value_details_trace:
  "tx_hash (resolve_value_details u d) = tx_hash d
   \<and> block_number (resolve_value_details u d) = block_number d"
  by (simp add: resolve_value_details_def Let_def)

lemma resolve_profitloss_trace:
  "tx_hash (resolve_profitloss u d) = tx_hash d
   \<and> block_number (resolve_profitloss u d) = block_number d"
  by (simp add: resolve_profitloss_def resolve_profitloss_value_def
        resolve_profitloss_details_def Let_def)

lemma disambiguate_trace:
  "tx_hash (disambiguate u d) = tx_hash d \<and> block_number (disambiguate u d) = block_number d"
  by (simp add: disambiguate_def resolve_profitloss_trace resolve_value_details_trace)

lemma chat_select_trace:
  assumes "chat_select api_tools d = TransactionTrace th bn cid"
  shows "truthy th \<and> truthy bn \<and> tx_hash d = th \<and> block_number d = bn"
  using assms by (simp add: chat_select_def split: if_splits)

lemma bare_hash_facts:
  "first_hex_id 64 hash_ones = Some hash_ones
   \<and> re_search block_number_pattern hash_ones = None
   \<and> re_search block_number_simple_pattern hash_ones = None
   \<and> extract_network hash_ones = ''ethereum''
   \<and> \<not> any_match trace_patterns (py_lower hash_ones)"
  by code_simp

lemma trace_block_detected:
  "detect_transaction_trace_query text_trace_block
     = Inr (Some hash_ones, Some ''18500000'', Some ''ethereum'')"
  by code_simp

lemma chain_id_ethereum: "chain_id_or_default ''ethereum'' = ''1''"
  by code_simp

lemma server_trace_step_scenario:
  "server_trace_step text_trace_block
     = Inr (TransactionTrace (Some hash_ones) (Some ''18500000'') (Some ''1''))"
  by (simp add: server_trace_step_def bind_result_def trace_block_detected truthy_def
        chain_id_ethereum hash_ones_def)

lemma chat_select_only_trace:
  "chat_select True (disambiguate text_trace_block only_trace)
     = TransactionTrace (Some hash_ones) (Some ''18500000'') (Some ''1'')"
proof -
  have "disambiguate text_trace_block only_trace = only_trace"
    by (simp add: disambiguate_def resolve_value_details_def resolve_profitloss_def
          only_trace_def truthy_def)
  then show ?thesis
    by (simp add: chat_select_def only_trace_def truthy_def chain_id_ethereum hash_ones_def)
qed

lemma value_fallback:
  assumes "first_hex_id 40 text = Some a"
    and "\<not> any_match value_token_details_patterns (py_lower text)"
    and "\<not> any_match token_value_patterns (py_lower text)"
  shows "detect_token_value_query text =
     (if any_keyword value_keywords (py_lower text)
      then Inr (Some a, Some (extract_network text)) else Inr (None, None))"
  using assms address_found [OF assms(1)]
  by (auto simp add: detect_token_value_query_def Let_def group0_or_none_address)

lemma details_fallback:
  assumes "first_hex_id 40 text = Some a"
    and "\<not> any_match token_details_patterns (py_lower text)"
  shows "detect_token_details_query text =
     (if any_keyword details_keywords (py_lower text)
      then Inr (Some a, Some (extract_network text)) else Inr (None, None))"
  using assms address_found [OF assms(1)]
  by (auto simp add: detect_token_details_query_def Let_def group0_or_none_address)

lemma profitloss_fallback:
  assumes "first_hex_id 40 text = Some a"
    and "\<not> any_match profitloss_patterns (py_lower text)"
  shows "detect_token_profitloss_query text =
     (if any_keyword profitloss_keywords (py_lower text)
      then Inr (Some a, Some (extract_network text), Some (extract_timerange text))
      else Inr (None, None, None))"
  using assms address_found [OF assms(1)]
  by (auto simp add: detect_token_profitloss_query_def Let_def group0_or_none_address)

lemma history_fallback:
  assumes "first_hex_id 40 text = Some a"
    and "\<not> any_match history_patterns (py_lower text)"
  shows "detect_transaction_history_query text =
     (if any_keyword history_keywords (py_lower text)
      then Inr (Some a, Some (extract_network text)) else Inr (None, None))"
  using assms address_found [OF assms(1)]
  by (auto simp add: detect_transaction_history_query_def Let_def group0_or_none_address)

lemma nft_no_fallback:
  "\<not> any_match nft_patterns (py_lower text)
   \<Longrightarrow> detect_nft_holdings_query text = Inr (None, None)"
  by (simp add: detect_nft_holdings_query_def)

lemma bare_hash_no_templates:
  "first_hex_id 40 hash_ones = Some address_ones
   \<and> \<not> any_match value_token_details_patterns (py_lower hash_ones)
   \<and> \<not> any_match token_value_patterns (py_lower hash_ones)
   \<and> \<not> any_match token_details_patterns (py_lower hash_ones)
   \<and> \<not> any_match profitloss_patterns (py_lower hash_ones)
   \<and> \<not> any_match history_patterns (py_lower hash_ones)
   \<and> \<not> any_match nft_patterns (py_lower hash_ones)"
  by code_simp

lemma bare_hash_no_keywords:
  "\<not> any_keyword value_keywords (py_lower hash_ones)
   \<and> \<not> any_keyword details_keywords (py_lower hash_ones)
   \<and> \<not> any_keyword profitloss_keywords (py_lower hash_ones)
   \<and> \<not> any_keyword history_keywords (py_lower hash_ones)"
  by code_simp

lemma value_profit_no_templates:
  "\<not> any_match value_token_details_patterns (py_lower text_value_profit)
   \<and> \<not> any_match token_value_patterns (py_lower text_value_profit)
   \<and> \<not> any_match profitloss_patterns (py_lower text_value_profit)
   \<and> any_keyword value_keywords (py_lower text_value_profit)
   \<and> any_keyword profitloss_keywords (py_lower text_value_profit)"
  by code_simp

lemma disambiguate_value_details_profitloss:
  assumes "truthy (token_address d)" and "token_address d = details_token_address d"
    and "profitloss_token_address d = token_address d"
    and "\<not> keyword_score details_keywords user_input > keyword_score value_keywords user_input"
  shows "disambiguate user_input d =
     (if keyword_score profitloss_keywords user_input > keyword_score value_keywords user_input
      then d\<lparr>details_token_address := None, details_token_network := None,
             token_address := None, token_network := None\<rparr>
      else d\<lparr>details_token_address := None, details_token_network := None,
             profitloss_token_address := None, profitloss_token_network := None,
             profitloss_timerange := None\<rparr>)"
proof -
  let ?d1 = "d\<lparr>details_token_address := None, details_token_network := None\<rparr>"
  have r: "resolve_value_details user_input d = ?d1"
    using resolve_value_details_conflict [OF assms(1,2), of user_input] assms(4) by simp
  have t: "truthy (token_address ?d1)" using assms(1) by simp
  have e: "token_address ?d1 = profitloss_token_address ?d1" using assms(3) by simp
  have n: "details_token_address ?d1 \<noteq> token_address ?d1"
    using assms(1) by (auto dest: truthy_not_None)
  have "disambiguate user_input d = resolve_profitloss user_input ?d1"
    by (simp add: disambiguate_def r)
  moreover have "resolve_value_details user_input ?d1 = ?d1"
    using n by (simp add: resolve_value_details_def)
  then have "disambiguate user_input ?d1 = resolve_profitloss user_input ?d1"
    by (simp add: disambiguate_def)
  ultimately have "disambiguate user_input d = disambiguate user_input ?d1" by simp
  then show ?thesis
    using disambiguate_profitloss_value [OF t e n, of user_input] by simp
qed

lemma run_detectors_all_three: "run_detectors text_all_three = Inr all_three_tokens"
proof -
  have 1: "detect_gas_price_query text_all_three = Inr None" by code_simp
  have 2: "detect_nft_holdings_query text_all_three = Inr (None, None)" by code_simp
  have 3: "detect_spot_price_query text_all_three = Inr (None, None)" by code_simp
  have 4: "detect_token_value_query text_all_three
             = Inr (Some address_ones, Some ''ethereum'')" by code_simp
  have 5: "detect_token_details_query text_all_three
             = Inr (Some address_ones, Some ''ethereum'')" by code_simp
  have 6: "detect_token_profitloss_query text_all_three
             = Inr (Some address_ones, Some ''ethereum'', Some ''1day'')" by code_simp
  have 7: "detect_transaction_trace_query text_all_three = Inr (None, None, None)"
    by code_simp
  have 8: "detect_transaction_history_query text_all_three = Inr (None, None)"
    by code_simp
  show ?thesis
    by (simp add: run_detectors_def bind_result_def 1 2 3 4 5 6 7 8 all_three_tokens_def)
qed

lemma scores_all_three:
  "keyword_score value_keywords text_all_three = 1
   \<and> keyword_score details_keywords text_all_three = 1
   \<and> keyword_score profitloss_keywords text_all_three = 2"
  by code_simp




lemma py_lower_append: "py_lower (a @ b) = py_lower a @ py_lower b"
  by (simp add: py_lower_def)

lemma contains_lowered_word:
  assumes "text = pre @ w @ post"
  shows "contains (py_lower w) (py_lower text)"
proof -
  have "py_lower text = py_lower pre @ py_lower w @ py_lower post"
    using assms by (simp add: py_lower_append)
  then show ?thesis using contains_iff by blast
qed

lemma scan_network_first:
  "scan_network text = Some net \<longleftrightarrow>
     (\<exists>i<length network_keys. net = network_keys ! i
        \<and> contains net (py_lower text)
        \<and> (\<forall>j<i. \<not> contains (network_keys ! j) (py_lower text)))"
  unfolding scan_network_raw find_Some_iff by auto

lemma automatic_resolves_to_matic:
  assumes "text = pre @ w @ post" and "py_lower w = ''automatic''"
    and "list_all (\<lambda>net. \<not> contains net (py_lower text))
           [''ethereum'', ''eth'', ''mainnet'', ''binance'', ''bsc'', ''polygon'']"
  shows "scan_network text = Some ''matic''
         \<and> extract_network text = ''matic''
         \<and> (any_match gas_patterns (py_lower text)
               \<longrightarrow> detect_gas_price_query text = Inr (Some ''matic''))"
proof -
  have a: "contains ''automatic'' (py_lower text)"
    using contains_lowered_word [OF assms(1)] assms(2) by simp
  have s: "scan_network text = Some ''matic''"
    using automatic_has_matic [OF a] assms(3) by (rule scan_network_matic)
  then have "extract_network text = ''matic''" by (rule extract_network_Some) simp
  then show ?thesis using s by (simp add: detect_gas_price_query_def)
qed

lemma upper_automatic_facts:
  "py_lower ''AUTOMATIC'' = ''automatic''
   \<and> list_all (\<lambda>net. \<not> contains net (py_lower ''AUTOMATIC Gas Price''))
        [''ethereum'', ''eth'', ''mainnet'', ''binance'', ''bsc'', ''polygon'']
   \<and> any_match gas_patterns (py_lower ''AUTOMATIC Gas Price'')"
  by code_simp

lemma automatic_something_facts:
  "contains ''automatic'' (py_lower ''automatic gas fee for something'')
   \<and> any_match gas_patterns (py_lower ''automatic gas fee for something'')
   \<and> detect_gas_price_query ''automatic gas fee for something'' = Inr (Some ''eth'')"
  by code_simp

lemma address_then_hash_facts:
  "contains hash_ones text_address_then_hash
   \<and> hex_id 64 hash_ones
   \<and> contains ''profit'' (py_lower text_address_then_hash)
   \<and> first_hex_id 40 text_address_then_hash = Some address_twos
   \<and> take 42 hash_ones = address_ones
   \<and> address_twos \<noteq> address_ones"
  by code_simp

lemma excluded_hash_facts:
  "contains hash_ones text_excluded_hash
   \<and> any_keyword value_keywords (py_lower text_excluded_hash)
   \<and> any_match value_token_details_patterns (py_lower text_excluded_hash)"
  by code_simp


section \<open>The network table is the one of the specification\<close>

lemma network_table_set:
  "set NETWORK_TO_CHAIN_ID =
     {(''ethereum'', ''1''), (''eth'', ''1''), (''mainnet'', ''1''),
      (''binance'', ''56''), (''bsc'', ''56''),
      (''polygon'', ''137''), (''matic'', ''137''),
      (''avalanche'', ''43114''), (''avax'', ''43114''),
      (''arbitrum'', ''42161''), (''optimism'', ''10''), (''base'', ''8453''),
      (''fantom'', ''250''), (''ftm'', ''250''), (''aurora'', ''1313161554'')}"
  by (simp add: NETWORK_TO_CHAIN_ID_def)

lemma network_keys_distinct: "distinct (map fst NETWORK_TO_CHAIN_ID)"
  by (simp add: NETWORK_TO_CHAIN_ID_def)

lemma chain_ids_polygon_base:
  "get_chain_id ''polygon'' = Some ''137'' \<and> get_chain_id ''base'' = Some ''8453''
   \<and> chain_id_or_default ''polygon'' = ''137'' \<and> chain_id_or_default ''base'' = ''8453''"
  by code_simp

lemma gas_polygon_scenario:
  "detect_gas_price_query ''what's the gas price on polygon?'' = Inr (Some ''polygon'')"
  by code_simp

lemma gas_base_scenario:
  "detect_gas_price_query ''gas price on base'' = Inr (Some ''base'')"
  by code_simp

text \<open>
  Claim C8: the network table holds exactly the fifteen alias/chain-id pairs listed, each
  alias once; the gas-price query of the scenario names polygon, which both lookups send
  to chain 137, and a query naming base goes to chain 8453.
\<close>

theorem network_directory_exact:
  "set NETWORK_TO_CHAIN_ID =
     {(''ethereum'', ''1''), (''eth'', ''1''), (''mainnet'', ''1''),
      (''binance'', ''56''), (''bsc'', ''56''),
      (''polygon'', ''137''), (''matic'', ''137''),
      (''avalanche'', ''43114''), (''avax'', ''43114''),
      (''arbitrum'', ''42161''), (''optimism'', ''10''), (''base'', ''8453''),
      (''fantom'', ''250''), (''ftm'', ''250''), (''aurora'', ''1313161554'')}
   \<and> distinct (map fst NETWORK_TO_CHAIN_ID)
   \<and> detect_gas_price_query ''what's the gas price on polygon?'' = Inr (Some ''polygon'')
   \<and> get_chain_id ''polygon'' = Some ''137''
   \<and> chain_id_or_default ''polygon'' = ''137''
   \<and> detect_gas_price_query ''gas price on base'' = Inr (Some ''base'')
   \<and> get_chain_id ''base'' = Some ''8453''
   \<and> chain_id_or_default ''base'' = ''8453''"
  using network_table_set network_keys_distinct chain_ids_polygon_base
        gas_polygon_scenario gas_base_scenario
  by blast


section \<open>Resolution of a pair of results on one address\<close>

text \<open>
  Claim C1, as the code has it: of two results that hold the same present address (the
  third holding another or none), the side with the strictly higher keyword score is
  kept and the other is cleared; on a tie of token value and token details token value
  is kept; on a tie that involves profit and loss, the profit-and-loss result is the one
  cleared and the other side is kept.
\<close>

theorem pairwise_resolution:
  "(truthy (token_address d) \<and> token_address d = details_token_address d
      \<and> profitloss_token_address d \<noteq> token_address d \<longrightarrow>
      disambiguate user_input d =
        (if keyword_score details_keywords user_input > keyword_score value_keywords user_input
         then d\<lparr>token_address := None, token_network := None\<rparr>
         else d\<lparr>details_token_address := None, details_token_network := None\<rparr>))
   \<and> (truthy (token_address d) \<and> token_address d = profitloss_token_address d
      \<and> details_token_address d \<noteq> token_address d \<longrightarrow>
      disambiguate user_input d =
        (if keyword_score profitloss_keywords user_input
              > keyword_score value_keywords user_input
         then d\<lparr>token_address := None, token_network := None\<rparr>
         else d\<lparr>profitloss_token_address := None, profitloss_token_network := None,
                profitloss_timerange := None\<rparr>))
   \<and> (truthy (details_token_address d)
      \<and> details_token_address d = profitloss_token_address d
      \<and> token_address d \<noteq> details_token_address d \<longrightarrow>
      disambiguate user_input d =
        (if keyword_score profitloss_keywords user_input
              > keyword_score details_keywords user_input
         then d\<lparr>details_token_address := None, details_token_network := None\<rparr>
         else d\<lparr>profitloss_token_address := None, profitloss_token_network := None,
                profitloss_timerange := None\<rparr>))"
  using disambiguate_value_details [of d user_input]
    disambiguate_profitloss_value [of d user_input]
    disambiguate_profitloss_details [of d user_input]
  by blast

theorem pairwise_resolution_witness:
  "(truthy (token_address only_value_and_details)
    \<and> token_address only_value_and_details = details_token_address only_value_and_details
    \<and> profitloss_token_address only_value_and_details
          \<noteq> token_address only_value_and_details
    \<and> disambiguate text_value_details only_value_and_details
          = only_value_and_details\<lparr>details_token_address := None,
                                    details_token_network := None\<rparr>)
   \<and> (truthy (token_address only_value_and_profitloss)
    \<and> token_address only_value_and_profitloss
          = profitloss_token_address only_value_and_profitloss
    \<and> details_token_address only_value_and_profitloss
          \<noteq> token_address only_value_and_profitloss
    \<and> disambiguate text_value_profit only_value_and_profitloss
          = only_value_and_profitloss\<lparr>profitloss_token_address := None,
                                       profitloss_token_network := None,
                                       profitloss_timerange := None\<rparr>)
   \<and> (truthy (details_token_address only_details_and_profitloss)
    \<and> details_token_address only_details_and_profitloss
          = profitloss_token_address only_details_and_profitloss
    \<and> token_address only_details_and_profitloss
          \<noteq> details_token_address only_details_and_profitloss
    \<and> disambiguate ''data roi 0x1111111111111111111111111111111111111111''
          only_details_and_profitloss
          = only_details_and_profitloss\<lparr>profitloss_token_address := None,
                                         profitloss_token_network := None,
                                         profitloss_timerange := None\<rparr>)"
proof -
  have t1: "truthy (token_address only_value_and_details)"
    by (simp add: only_value_and_details_def truthy_def)
  have e1: "token_address only_value_and_details = details_token_address only_value_and_details"
    by (simp add: only_value_and_details_def)
  have n1: "profitloss_token_address only_value_and_details
              \<noteq> token_address only_value_and_details"
    by (simp add: only_value_and_details_def)
  have t2: "truthy (token_address only_value_and_profitloss)"
    by (simp add: only_value_and_profitloss_def truthy_address_ones)
  have e2: "token_address only_value_and_profitloss
              = profitloss_token_address only_value_and_profitloss"
    by (simp add: only_value_and_profitloss_def)
  have n2: "details_token_address only_value_and_profitloss
              \<noteq> token_address only_value_and_profitloss"
    by (simp add: only_value_and_profitloss_def)
  have t3: "truthy (details_token_address only_details_and_profitloss)"
    by (simp add: only_details_and_profitloss_def truthy_address_ones)
  have e3: "details_token_address only_details_and_profitloss
              = profitloss_token_address only_details_and_profitloss"
    by (simp add: only_details_and_profitloss_def)
  have n3: "token_address only_details_and_profitloss
              \<noteq> details_token_address only_details_and_profitloss"
    by (simp add: only_details_and_profitloss_def)
  note a = pairwise_resolution [of only_value_and_details text_value_details]
  note b = pairwise_resolution [of only_value_and_profitloss text_value_profit]
  note c = pairwise_resolution [of only_details_and_profitloss
             "''data roi 0x1111111111111111111111111111111111111111''"]
  show ?thesis
    using a b c t1 e1 n1 t2 e2 n2 t3 e3 n3
      scores_value_details scores_value_profit scores_data_roi
    by simp
qed

text \<open>
  The claim as written fails on a tie that involves profit and loss: for the text
  ``value profit'' followed by an address, the token-value and the profit-and-loss
  detector both hold the address, each score is 1, and it is the profit-and-loss result
  that is cleared.
\<close>

theorem profitloss_tie_counterexample:
  "run_detectors text_value_profit = Inr only_value_and_profitloss
   \<and> token_address only_value_and_profitloss = Some address_ones
   \<and> profitloss_token_address only_value_and_profitloss = Some address_ones
   \<and> keyword_score value_keywords text_value_profit = 1
   \<and> keyword_score profitloss_keywords text_value_profit = 1
   \<and> profitloss_token_address (disambiguate text_value_profit only_value_and_profitloss)
         = None
   \<and> token_address (disambiguate text_value_profit only_value_and_profitloss)
         = Some address_ones"
proof -
  have t: "truthy (token_address only_value_and_profitloss)"
    by (simp add: only_value_and_profitloss_def truthy_address_ones)
  have e: "token_address only_value_and_profitloss
              = profitloss_token_address only_value_and_profitloss"
    by (simp add: only_value_and_profitloss_def)
  have n: "details_token_address only_value_and_profitloss
              \<noteq> token_address only_value_and_profitloss"
    by (simp add: only_value_and_profitloss_def)
  have "disambiguate text_value_profit only_value_and_profitloss
          = only_value_and_profitloss\<lparr>profitloss_token_address := None,
                                       profitloss_token_network := None,
                                       profitloss_timerange := None\<rparr>"
    using disambiguate_profitloss_value [OF t e n, of text_value_profit] scores_value_profit
    by simp
  then show ?thesis
    using run_detectors_value_profit scores_value_profit
    by (simp add: only_value_and_profitloss_def)
qed


section \<open>The keyword gate of the fallback on a bare address\<close>

text \<open>
  Claim C2, as the code has it.  Let the text hold a substring of the shape of an
  address, the leftmost being a.  For token value (when no exclusion phrase matches),
  token details, profit and loss and transaction history: when no template of the
  detector matches the lowered text, the detector reports a if one of its keywords occurs
  in the lowered text and returns its tuple of absent fields otherwise.  The NFT detector
  has no fallback: without a template match it returns absent fields.  The trace detector
  has no keyword gate: a text that holds a hash yields a result with that hash.
\<close>

theorem fallback_keyword_gate:
  assumes "first_hex_id 40 text = Some a"
  shows "(\<not> any_match value_token_details_patterns (py_lower text)
          \<and> \<not> any_match token_value_patterns (py_lower text) \<longrightarrow>
          detect_token_value_query text =
            (if any_keyword value_keywords (py_lower text)
             then Inr (Some a, Some (extract_network text)) else Inr (None, None)))
     \<and> (\<not> any_match token_details_patterns (py_lower text) \<longrightarrow>
          detect_token_details_query text =
            (if any_keyword details_keywords (py_lower text)
             then Inr (Some a, Some (extract_network text)) else Inr (None, None)))
     \<and> (\<not> any_match profitloss_patterns (py_lower text) \<longrightarrow>
          detect_token_profitloss_query text =
            (if any_keyword profitloss_keywords (py_lower text)
             then Inr (Some a, Some (extract_network text), Some (extract_timerange text))
             else Inr (None, None, None)))
     \<and> (\<not> any_match history_patterns (py_lower text) \<longrightarrow>
          detect_transaction_history_query text =
            (if any_keyword history_keywords (py_lower text)
             then Inr (Some a, Some (extract_network text)) else Inr (None, None)))
     \<and> (\<not> any_match nft_patterns (py_lower text) \<longrightarrow>
          detect_nft_holdings_query text = Inr (None, None))
     \<and> (first_hex_id 64 text = Some h \<longrightarrow>
          (\<exists>b. detect_transaction_trace_query text
                 = Inr (Some h, b, Some (extract_network text))))"
  using value_fallback [OF assms] details_fallback [OF assms] profitloss_fallback [OF assms]
    history_fallback [OF assms] nft_no_fallback [of "text"] trace_with_hash [of "text" h]
  by blast

theorem fallback_keyword_gate_witness:
  "(first_hex_id 40 hash_ones = Some address_ones
    \<and> \<not> any_match value_token_details_patterns (py_lower hash_ones)
    \<and> \<not> any_match token_value_patterns (py_lower hash_ones)
    \<and> \<not> any_match token_details_patterns (py_lower hash_ones)
    \<and> \<not> any_match profitloss_patterns (py_lower hash_ones)
    \<and> \<not> any_match history_patterns (py_lower hash_ones)
    \<and> \<not> any_match nft_patterns (py_lower hash_ones)
    \<and> first_hex_id 64 hash_ones = Some hash_ones
    \<and> detect_token_value_query hash_ones = Inr (None, None)
    \<and> detect_token_details_query hash_ones = Inr (None, None)
    \<and> detect_token_profitloss_query hash_ones = Inr (None, None, None)
    \<and> detect_transaction_history_query hash_ones = Inr (None, None)
    \<and> detect_nft_holdings_query hash_ones = Inr (None, None)
    \<and> (\<exists>b. detect_transaction_trace_query hash_ones
            = Inr (Some hash_ones, b, Some (extract_network hash_ones))))
   \<and> (first_hex_id 40 text_value_profit = Some address_ones
    \<and> \<not> any_match value_token_details_patterns (py_lower text_value_profit)
    \<and> \<not> any_match token_value_patterns (py_lower text_value_profit)
    \<and> \<not> any_match profitloss_patterns (py_lower text_value_profit)
    \<and> detect_token_value_query text_value_profit
         = Inr (Some address_ones, Some (extract_network text_value_profit))
    \<and> detect_token_profitloss_query text_value_profit
         = Inr (Some address_ones, Some (extract_network text_value_profit),
                Some (extract_timerange text_value_profit)))"
proof -
  have a: "first_hex_id 40 hash_ones = Some address_ones"
    using bare_hash_no_templates by simp
  have b: "first_hex_id 40 text_value_profit = Some address_ones"
    using value_profit_facts by simp
  show ?thesis
    using fallback_keyword_gate [OF a, of hash_ones] fallback_keyword_gate [OF b, of h]
      bare_hash_no_templates bare_hash_no_keywords bare_hash_facts value_profit_no_templates b
    by simp
qed

text \<open>
  The claim as written fails for the trace detector: a text that is nothing but a hash
  matches no trace template and holds no keyword, and the detector reports the hash.
\<close>

theorem bare_hash_counterexample:
  "\<not> any_match trace_patterns (py_lower hash_ones)
   \<and> detect_transaction_trace_query hash_ones
       = Inr (Some hash_ones, None, Some ''ethereum'')"
proof -
  have "detect_transaction_trace_query hash_ones
          = Inr (Some hash_ones, None, Some (extract_network hash_ones))"
    using bare_hash_facts by (intro trace_hash_only) simp_all
  then show ?thesis using bare_hash_facts by simp
qed


section \<open>The exclusion of token-details phrases from the token-value detector\<close>



section \<open>A tie between token value and token details\<close>

text \<open>
  Claim C4, as the code has it: when the token-value and the token-details detector hold
  the same present address and the two keyword scores are equal, the resolution of that
  pair keeps the token-value result and clears address and network of the token-details
  result.  That is the outcome of the whole conflict resolution when the profit-and-loss
  detector does not hold that address.  When it does, the step that follows decides
  between token value and profit and loss: the token-value result is cleared too when the
  profit-and-loss score is strictly higher, and the profit-and-loss result is cleared
  otherwise.
\<close>

theorem value_details_tie_resolution:
  assumes "truthy (token_address d)"
    and "token_address d = details_token_address d"
    and "keyword_score value_keywords user_input = keyword_score details_keywords user_input"
  shows "resolve_value_details user_input d
           = d\<lparr>details_token_address := None, details_token_network := None\<rparr>
         \<and> disambiguate user_input d
           = (if profitloss_token_address d = token_address d
              then (if keyword_score profitloss_keywords user_input
                       > keyword_score value_keywords user_input
                    then d\<lparr>details_token_address := None, details_token_network := None,
                           token_address := None, token_network := None\<rparr>
                    else d\<lparr>details_token_address := None, details_token_network := None,
                           profitloss_token_address := None,
                           profitloss_token_network := None,
                           profitloss_timerange := None\<rparr>)
              else d\<lparr>details_token_address := None, details_token_network := None\<rparr>)"
proof -
  have s: "\<not> keyword_score details_keywords user_input
              > keyword_score value_keywords user_input"
    using assms(3) by simp
  have 1: "resolve_value_details user_input d
           = d\<lparr>details_token_address := None, details_token_network := None\<rparr>"
    using resolve_value_details_conflict [OF assms(1,2), of user_input] s by simp
  show ?thesis
  proof (cases "profitloss_token_address d = token_address d")
    case True
    then show ?thesis
      using 1 disambiguate_value_details_profitloss [OF assms(1,2) True s] by simp
  next
    case False
    then show ?thesis
      using 1 disambiguate_value_details [OF assms(1,2) False, of user_input] s by simp
  qed
qed

theorem value_details_tie_resolution_witness:
  "(run_detectors text_value_details = Inr only_value_and_details
    \<and> truthy (token_address only_value_and_details)
    \<and> token_address only_value_and_details = details_token_address only_value_and_details
    \<and> keyword_score value_keywords text_value_details
         = keyword_score details_keywords text_value_details
    \<and> profitloss_token_address only_value_and_details
         \<noteq> token_address only_value_and_details
    \<and> disambiguate text_value_details only_value_and_details
         = only_value_and_details\<lparr>details_token_address := None,
                                   details_token_network := None\<rparr>)
   \<and> (run_detectors text_all_three = Inr all_three_tokens
    \<and> truthy (token_address all_three_tokens)
    \<and> token_address all_three_tokens = details_token_address all_three_tokens
    \<and> keyword_score value_keywords text_all_three
         = keyword_score details_keywords text_all_three
    \<and> profitloss_token_address all_three_tokens = token_address all_three_tokens
    \<and> disambiguate text_all_three all_three_tokens
         = all_three_tokens\<lparr>details_token_address := None, details_token_network := None,
                             token_address := None, token_network := None\<rparr>)"
proof -
  have t: "truthy (token_address only_value_and_details)"
    by (simp add: only_value_and_details_def truthy_def)
  have e: "token_address only_value_and_details = details_token_address only_value_and_details"
    by (simp add: only_value_and_details_def)
  have s: "keyword_score value_keywords text_value_details
             = keyword_score details_keywords text_value_details"
    using scores_value_details by simp
  have n: "profitloss_token_address only_value_and_details
              \<noteq> token_address only_value_and_details"
    by (simp add: only_value_and_details_def)
  have t3: "truthy (token_address all_three_tokens)"
    by (simp add: all_three_tokens_def truthy_address_ones)
  have e3: "token_address all_three_tokens = details_token_address all_three_tokens"
    by (simp add: all_three_tokens_def)
  have s3: "keyword_score value_keywords text_all_three
             = keyword_score details_keywords text_all_three"
    using scores_all_three by simp
  have p3: "profitloss_token_address all_three_tokens = token_address all_three_tokens"
    by (simp add: all_three_tokens_def)
  show ?thesis
    using value_details_tie_resolution [OF t e s] value_details_tie_resolution [OF t3 e3 s3]
      t e s n t3 e3 s3 p3 run_detectors_value_details run_detectors_all_three
      scores_all_three
    by simp
qed

text \<open>
  The claim as written fails when the profit-and-loss detector holds the same address
  with a higher score: for the text below the token-value and the token-details score
  are both 1, and after the conflict resolution the token-value address is absent.
\<close>

theorem value_details_tie_counterexample:
  "run_detectors text_all_three = Inr all_three_tokens
   \<and> token_address all_three_tokens = Some address_ones
   \<and> details_token_address all_three_tokens = Some address_ones
   \<and> keyword_score value_keywords text_all_three = 1
   \<and> keyword_score details_keywords text_all_three = 1
   \<and> token_address (disambiguate text_all_three all_three_tokens) = None"
proof -
  have t3: "truthy (token_address all_three_tokens)"
    by (simp add: all_three_tokens_def truthy_address_ones)
  have e3: "token_address all_three_tokens = details_token_address all_three_tokens"
    by (simp add: all_three_tokens_def)
  have p3: "profitloss_token_address all_three_tokens = token_address all_three_tokens"
    by (simp add: all_three_tokens_def)
  have s3: "\<not> keyword_score details_keywords text_all_three
               > keyword_score value_keywords text_all_three"
    using scores_all_three by simp
  have "token_address (disambiguate text_all_three all_three_tokens) = None"
    using disambiguate_value_details_profitloss [OF t3 e3 p3 s3] scores_all_three by simp
  then show ?thesis
    using run_detectors_all_three scores_all_three by (simp add: all_three_tokens_def)
qed


section \<open>A trace needs the hash and the block number\<close>

text \<open>
  Claim C5: when a text holds a hash, 0x plus 64 hexadecimal digits, and neither block
  pattern finds a number, the trace detector returns the hash with an absent block
  number, and the server's chat route does not forward it.  Whenever the server's chat
  route or the chat loop's ladder forwards a trace, hash and block number are both
  present.
\<close>

theorem trace_partial_result_and_forwarding:
  "(first_hex_id 64 text = Some h
      \<and> re_search block_number_pattern text = None
      \<and> re_search block_number_simple_pattern text = None
      \<longrightarrow> detect_transaction_trace_query text
            = Inr (Some h, None, Some (extract_network text))
          \<and> server_trace_step text = Inr NoIntent)
   \<and> (server_trace_step message = Inr (TransactionTrace th bn cid)
      \<longrightarrow> truthy th \<and> truthy bn
          \<and> (\<exists>net. detect_transaction_trace_query message = Inr (th, bn, net)))
   \<and> (chat_select api_tools (disambiguate user_input d) = TransactionTrace th' bn' cid'
      \<longrightarrow> truthy th' \<and> truthy bn' \<and> tx_hash d = th' \<and> block_number d = bn')"
proof -
  have 1: "detect_transaction_trace_query text
            = Inr (Some h, None, Some (extract_network text))
          \<and> server_trace_step text = Inr NoIntent"
    if "first_hex_id 64 text = Some h" "re_search block_number_pattern text = None"
      "re_search block_number_simple_pattern text = None"
    using trace_hash_only [OF that] server_trace_step_no_block by simp
  have 3: "truthy th' \<and> truthy bn' \<and> tx_hash d = th' \<and> block_number d = bn'"
    if "chat_select api_tools (disambiguate user_input d) = TransactionTrace th' bn' cid'"
    using chat_select_trace [OF that] disambiguate_trace [of user_input d] by simp
  show ?thesis using 1 3 server_trace_step_forwards [of message th bn cid] by blast
qed

theorem trace_partial_result_and_forwarding_witness:
  "(first_hex_id 64 hash_ones = Some hash_ones
      \<and> re_search block_number_pattern hash_ones = None
      \<and> re_search block_number_simple_pattern hash_ones = None
      \<and> detect_transaction_trace_query hash_ones
            = Inr (Some hash_ones, None, Some ''ethereum'')
      \<and> server_trace_step hash_ones = Inr NoIntent)
   \<and> (server_trace_step text_trace_block
         = Inr (TransactionTrace (Some hash_ones) (Some ''18500000'') (Some ''1''))
      \<and> truthy (Some hash_ones) \<and> truthy (Some ''18500000'')
      \<and> detect_transaction_trace_query text_trace_block
           = Inr (Some hash_ones, Some ''18500000'', Some ''ethereum''))
   \<and> (chat_select True (disambiguate text_trace_block only_trace)
         = TransactionTrace (Some hash_ones) (Some ''18500000'') (Some ''1'')
      \<and> tx_hash only_trace = Some hash_ones
      \<and> block_number only_trace = Some ''18500000'')"
  using trace_partial_result_and_forwarding
          [of hash_ones hash_ones text_trace_block "Some hash_ones" "Some ''18500000''"
              "Some ''1''" True text_trace_block only_trace "Some hash_ones"
              "Some ''18500000''" "Some ''1''"]
        bare_hash_facts server_trace_step_scenario chat_select_only_trace
        trace_block_detected
  by simp


section \<open>An address and the word profit\<close>




section \<open>No detector raises\<close>

text \<open>
  Claim C7: for every text each of the eight detectors returns a value and not an error,
  either its tuple of absent fields or a tuple whose network is present, and so do the
  run of all eight and the chat loop's conflict resolution and selection after it.
\<close>

theorem matchers_return_normally:
  "(detect_gas_price_query text = Inr None
      \<or> (\<exists>net. detect_gas_price_query text = Inr (Some net)))
   \<and> (detect_nft_holdings_query text = Inr (None, None)
      \<or> (\<exists>a net. detect_nft_holdings_query text = Inr (a, Some net)))
   \<and> (detect_spot_price_query text = Inr (None, None)
      \<or> (\<exists>cur net. detect_spot_price_query text = Inr (Some cur, Some net)))
   \<and> (detect_token_value_query text = Inr (None, None)
      \<or> (\<exists>a net. detect_token_value_query text = Inr (a, Some net)))
   \<and> (detect_token_details_query text = Inr (None, None)
      \<or> (\<exists>a net. detect_token_details_query text = Inr (a, Some net)))
   \<and> (detect_token_profitloss_query text = Inr (None, None, None)
      \<or> (\<exists>a net tr. detect_token_profitloss_query text = Inr (a, Some net, Some tr)))
   \<and> (detect_transaction_trace_query text = Inr (None, None, None)
      \<or> (\<exists>h b net. detect_transaction_trace_query text = Inr (h, b, Some net)))
   \<and> (detect_transaction_history_query text = Inr (None, None)
      \<or> (\<exists>a net. detect_transaction_history_query text = Inr (a, Some net)))
   \<and> (\<exists>d. run_detectors text = Inr d
          \<and> ollama_chat_intent api_tools text
              = Inr (chat_select api_tools (disambiguate text d)))"
proof -
  obtain d where d: "run_detectors text = Inr d" using run_detectors_total by blast
  then have "ollama_chat_intent api_tools text
              = Inr (chat_select api_tools (disambiguate text d))"
    by (simp add: ollama_chat_intent_def bind_result_def)
  then show ?thesis
    using d gas_total nft_total spot_total value_total details_total profitloss_total
      trace_total history_total
    by blast
qed


section \<open>The address pattern matches inside a transaction hash\<close>

text \<open>
  Claim C9, as the code has it: when a text holds a hash, 0x plus 64 hexadecimal digits,
  and no earlier position of the text begins the shape of an address, the address
  pattern finds the first 42 characters of the hash.  A detector keyed by an address
  then reports that truncated hash as its subject as soon as one of its keywords occurs
  in the lowered text (profit for profit and loss, history for transaction history, and
  likewise for token details; for token value unless an exclusion phrase matches), and
  the NFT detector does so when one of its templates matches.
\<close>

theorem address_pattern_matches_inside_hash:
  assumes "text = pre @ h @ post" and "hex_id 64 h"
    and "list_all (\<lambda>j. \<not> hex_id_prefix 40 (drop j text)) [0..<length pre]"
  shows "first_hex_id 40 text = Some (take 42 h)
     \<and> (any_keyword profitloss_keywords (py_lower text) \<longrightarrow>
          detect_token_profitloss_query text
            = Inr (Some (take 42 h), Some (extract_network text), Some (extract_timerange text)))
     \<and> (any_keyword history_keywords (py_lower text) \<longrightarrow>
          detect_transaction_history_query text
            = Inr (Some (take 42 h), Some (extract_network text)))
     \<and> (any_keyword details_keywords (py_lower text) \<longrightarrow>
          detect_token_details_query text
            = Inr (Some (take 42 h), Some (extract_network text)))
     \<and> (any_keyword value_keywords (py_lower text)
          \<and> \<not> any_match value_token_details_patterns (py_lower text) \<longrightarrow>
          detect_token_value_query text
            = Inr (Some (take 42 h), Some (extract_network text)))
     \<and> (any_match nft_patterns (py_lower text) \<longrightarrow>
          detect_nft_holdings_query text
            = Inr (Some (take 42 h), Some (extract_network text)))"
proof -
  have f: "first_hex_id 40 text = Some (take 42 h)"
    using assms by (rule address_inside_hash)
  show ?thesis
    using f profitloss_with_keyword [OF f] history_with_keyword [OF f]
      details_with_keyword [OF f] value_with_keyword [OF f] nft_with_template [OF f]
    by blast
qed

theorem address_pattern_matches_inside_hash_witness:
  "text_profit_history_hash = words_before_hash @ hash_ones @ []
   \<and> hex_id 64 hash_ones
   \<and> list_all (\<lambda>j. \<not> hex_id_prefix 40 (drop j text_profit_history_hash))
        [0..<length words_before_hash]
   \<and> any_keyword profitloss_keywords (py_lower text_profit_history_hash)
   \<and> any_keyword history_keywords (py_lower text_profit_history_hash)
   \<and> any_keyword details_keywords (py_lower text_profit_history_hash)
   \<and> any_keyword value_keywords (py_lower text_profit_history_hash)
   \<and> \<not> any_match value_token_details_patterns (py_lower text_profit_history_hash)
   \<and> any_match nft_patterns (py_lower text_profit_history_hash)
   \<and> first_hex_id 40 text_profit_history_hash = Some address_ones
   \<and> detect_token_profitloss_query text_profit_history_hash
        = Inr (Some address_ones, Some (extract_network text_profit_history_hash),
               Some (extract_timerange text_profit_history_hash))
   \<and> detect_transaction_history_query text_profit_history_hash
        = Inr (Some address_ones, Some (extract_network text_profit_history_hash))
   \<and> detect_token_details_query text_profit_history_hash
        = Inr (Some address_ones, Some (extract_network text_profit_history_hash))
   \<and> detect_token_value_query text_profit_history_hash
        = Inr (Some address_ones, Some (extract_network text_profit_history_hash))
   \<and> detect_nft_holdings_query text_profit_history_hash
        = Inr (Some address_ones, Some (extract_network text_profit_history_hash))"
proof -
  have e: "text_profit_history_hash = words_before_hash @ hash_ones @ []"
    by (simp add: text_profit_history_hash_def)
  have h: "hex_id 64 hash_ones"
    and n: "list_all (\<lambda>j. \<not> hex_id_prefix 40 (drop j text_profit_history_hash))
              [0..<length words_before_hash]"
    and t: "take 42 hash_ones = address_ones"
    using profit_history_hash_facts by blast+
  show ?thesis
    using address_pattern_matches_inside_hash [OF e h n] e profit_history_hash_facts
    by (simp add: t)
qed

text \<open>
  The claim as written fails in two ways.  In the first text an address stands before
  the hash, the lowered text contains ``profit'', and the profit-and-loss detector
  reports that address and not the first 42 characters of the hash.  In the second text
  a value keyword stands before the hash together with the phrase ``token details'', and
  the token-value detector returns its tuple of absent fields.
\<close>

theorem hash_subject_counterexample:
  "(contains hash_ones text_address_then_hash
    \<and> hex_id 64 hash_ones
    \<and> contains ''profit'' (py_lower text_address_then_hash)
    \<and> detect_token_profitloss_query text_address_then_hash
         = Inr (Some address_twos, Some (extract_network text_address_then_hash),
                Some (extract_timerange text_address_then_hash))
    \<and> take 42 hash_ones = address_ones
    \<and> address_twos \<noteq> address_ones)
   \<and> (contains hash_ones text_excluded_hash
    \<and> any_keyword value_keywords (py_lower text_excluded_hash)
    \<and> detect_token_value_query text_excluded_hash = Inr (None, None))"
proof -
  have f: "first_hex_id 40 text_address_then_hash = Some address_twos"
    and p: "contains ''profit'' (py_lower text_address_then_hash)"
    using address_then_hash_facts by blast+
  have 1: "detect_token_profitloss_query text_address_then_hash
         = Inr (Some address_twos, Some (extract_network text_address_then_hash),
                Some (extract_timerange text_address_then_hash))"
    using f profit_is_keyword [OF p] by (rule profitloss_with_keyword)
  have 2: "detect_token_value_query text_excluded_hash = Inr (None, None)"
    using excluded_hash_facts by (intro value_excluded) simp
  show ?thesis
    using 1 2 address_then_hash_facts excluded_hash_facts by blast
qed


section \<open>The network alias is found by raw substring search\<close>

text \<open>
  Claim C10, as the code has it: the scan for a network alias goes through the keys of
  the table in the order ethereum, eth, mainnet, binance, bsc, polygon, matic, avalanche,
  avax, arbitrum, optimism, base, fantom, ftm, aurora, and returns the first key that
  occurs as a substring of the lowered text, whether or not it stands there as a word.
  So a text that holds ``automatic'' in any letter case, and none of the six aliases
  listed before matic, resolves to matic, which is chain 137, and a gas-price query with
  such a text returns matic and not the default ethereum.
\<close>

theorem network_scan_first_alias:
  "network_keys = [''ethereum'', ''eth'', ''mainnet'', ''binance'', ''bsc'', ''polygon'',
                   ''matic'', ''avalanche'', ''avax'', ''arbitrum'', ''optimism'', ''base'',
                   ''fantom'', ''ftm'', ''aurora'']
   \<and> (scan_network text = Some net \<longleftrightarrow>
        (\<exists>i<length network_keys. net = network_keys ! i
           \<and> contains net (py_lower text)
           \<and> (\<forall>j<i. \<not> contains (network_keys ! j) (py_lower text))))
   \<and> (text = pre @ w @ post \<and> py_lower w = ''automatic''
        \<and> list_all (\<lambda>net. \<not> contains net (py_lower text))
              [''ethereum'', ''eth'', ''mainnet'', ''binance'', ''bsc'', ''polygon'']
        \<longrightarrow> scan_network text = Some ''matic''
            \<and> extract_network text = ''matic''
            \<and> chain_id_or_default ''matic'' = ''137''
            \<and> (any_match gas_patterns (py_lower text)
                 \<longrightarrow> detect_gas_price_query text = Inr (Some ''matic'')))"
  using network_keys_list scan_network_first [of "text" net]
    automatic_resolves_to_matic [of "text" "pre" w "post"] chain_id_matic
  by blast

theorem network_scan_first_alias_witness:
  "''AUTOMATIC Gas Price'' = [] @ ''AUTOMATIC'' @ '' Gas Price''
   \<and> py_lower ''AUTOMATIC'' = ''automatic''
   \<and> list_all (\<lambda>net. \<not> contains net (py_lower ''AUTOMATIC Gas Price''))
        [''ethereum'', ''eth'', ''mainnet'', ''binance'', ''bsc'', ''polygon'']
   \<and> any_match gas_patterns (py_lower ''AUTOMATIC Gas Price'')
   \<and> scan_network ''AUTOMATIC Gas Price'' = Some ''matic''
   \<and> extract_network ''AUTOMATIC Gas Price'' = ''matic''
   \<and> detect_gas_price_query ''AUTOMATIC Gas Price'' = Inr (Some ''matic'')
   \<and> (\<exists>i<length network_keys. ''matic'' = network_keys ! i
         \<and> contains ''matic'' (py_lower ''AUTOMATIC Gas Price'')
         \<and> (\<forall>j<i. \<not> contains (network_keys ! j) (py_lower ''AUTOMATIC Gas Price'')))"
proof -
  have e: "''AUTOMATIC Gas Price'' = [] @ ''AUTOMATIC'' @ '' Gas Price''" by simp
  note t = network_scan_first_alias
             [of "''AUTOMATIC Gas Price''" "''matic''" "[]" "''AUTOMATIC''" "'' Gas Price''"]
  have s: "scan_network ''AUTOMATIC Gas Price'' = Some ''matic''
           \<and> extract_network ''AUTOMATIC Gas Price'' = ''matic''
           \<and> detect_gas_price_query ''AUTOMATIC Gas Price'' = Inr (Some ''matic'')"
    using t e upper_automatic_facts by blast
  then have "\<exists>i<length network_keys. ''matic'' = network_keys ! i
         \<and> contains ''matic'' (py_lower ''AUTOMATIC Gas Price'')
         \<and> (\<forall>j<i. \<not> contains (network_keys ! j) (py_lower ''AUTOMATIC Gas Price''))"
    using t by blast
  then show ?thesis using e s upper_automatic_facts by blast
qed

text \<open>
  The claim as written fails when an alias listed before matic occurs in the text too:
  the text below contains ``automatic'' and matches a gas template, and ``something''
  holds the alias eth, which the scan meets first.
\<close>

theorem automatic_counterexample:
  "contains ''automatic'' (py_lower ''automatic gas fee for something'')
   \<and> any_match gas_patterns (py_lower ''automatic gas fee for something'')
   \<and> detect_gas_price_query ''automatic gas fee for something'' = Inr (Some ''eth'')"
  using automatic_something_facts by blast


end
